theory Spec2Isabelle
  imports Main "HOL-Library.Word"
begin

unbundle bit_operations_syntax

section \<open>Common data\<close>

type_synonym u8 = "8 word"
type_synonym u16 = "16 word"
type_synonym u32 = "32 word"
type_synonym u64 = "64 word"

text \<open>
  The exception classes of the program. Each carries the numeric code and the message that
  the source passes to the constructor. Their headers are not among the sources at hand;
  the classes are taken as unrelated to one another, so that a handler for one catches no
  other.
\<close>

datatype exn =
    RuntimeException nat string
  | ConfigurationException nat string
  | DataException nat string
  | RedoLogException nat string

fun exn_code :: "exn \<Rightarrow> nat" where
  "exn_code (RuntimeException c m) = c"
| "exn_code (ConfigurationException c m) = c"
| "exn_code (DataException c m) = c"
| "exn_code (RedoLogException c m) = c"


text \<open>\<open>std::to_string\<close> on an unsigned value: the decimal digits, most significant first.\<close>

definition digit_char :: "nat \<Rightarrow> char" where
  "digit_char d = char_of (48 + d)"

function to_string :: "nat \<Rightarrow> string" where
  "to_string n = (if n < 10 then [digit_char n] else to_string (n div 10) @ [digit_char (n mod 10)])"
  by pat_completeness auto
termination
  by (relation "measure (\<lambda>n. n)") auto

declare to_string.simps [simp del]

section \<open>The output queue of the builder (Builder.h)\<close>

text \<open>
  A queue node (\<open>struct BuilderQueue\<close>) owns a byte buffer \<open>data\<close>, addressed here by the
  64-bit offset the source adds to the \<open>data\<close> pointer. The \<open>next\<close> pointer is the order of
  the nodes in the list \<open>closed\<close> of the builder, followed by \<open>lastBuilderQueue\<close>.
\<close>

record BuilderQueue =
  q_id :: u64
  q_size :: u64
  q_start :: u64
  q_data :: "u64 \<Rightarrow> u8"

text \<open>
  A pointer into the data area of a node: the id of the node and the offset from its
  \<open>data\<close> pointer.
\<close>

type_synonym ptr = "u64 \<times> u64"

text \<open>
  \<open>struct BuilderMsg\<close>, the header of a message. \<open>m_at\<close> is the address of the header
  itself (the value of the pointer \<open>msg\<close>); the other fields are the members the builder
  writes.
\<close>

record BuilderMsg =
  m_at :: ptr
  m_id :: u64
  m_queueId :: u64
  m_size :: u64
  m_tagSize :: u64
  m_scn :: u64
  m_lwnScn :: u64
  m_lwnIdx :: u64
  m_data :: ptr
  m_sequence :: u32
  m_obj :: u32
  m_flags :: u16

text \<open>
  Compile-time and configuration constants the builder reads:
  \<open>OUTPUT_BUFFER_DATA_SIZE = Ctx::MEMORY_CHUNK_SIZE - sizeof(struct BuilderQueue)\<close>,
  \<open>sizeof(struct BuilderMsg)\<close>, \<open>ctx->memoryChunksWriteBufferMax\<close> and
  \<open>Ctx::MEMORY_CHUNK_SIZE_MB\<close>. \<open>Ctx.h\<close> and \<open>types.h\<close>, which fix their values, are not
  among the sources at hand; the model takes them as parameters.
\<close>

record layout =
  OUTPUT_BUFFER_DATA_SIZE :: u64
  SIZEOF_BuilderMsg :: u64
  memoryChunksWriteBufferMax :: u64
  MEMORY_CHUNK_SIZE_MB :: u64

definition BUFFER_START_UNDEFINED :: u64 where
  "BUFFER_START_UNDEFINED = 0xFFFFFFFFFFFFFFFF"

definition SCN_COMMIT_VALUE :: u64 where
  "SCN_COMMIT_VALUE = 2"

text \<open>
  The members of \<open>class Builder\<close> that the queue operations touch. \<open>msg\<close> is \<open>None\<close> for
  the null pointer. \<open>committed\<close> holds the headers that \<open>builderCommit\<close> has finished and
  left in queue memory, oldest first. \<open>notified\<close> counts the calls of
  \<open>condNoWriterWork.notify_all()\<close>.
\<close>

record Builder =
  closed :: "BuilderQueue list"
  lastBuilderQueue :: BuilderQueue
  buffersAllocated :: u64
  msg :: "BuilderMsg option"
  committed :: "BuilderMsg list"
  unconfirmedSize :: u64
  messageSize :: u64
  messagePosition :: u64
  flushBuffer :: u64
  scnType :: u64
  commitScn :: u64
  lwnScn :: u64
  lwnIdx :: u64
  next_id :: u64
  notified :: nat

text \<open>The bytes at offset \<open>off\<close> and following of the node with id \<open>qid\<close>.\<close>

definition read_at :: "Builder \<Rightarrow> ptr \<Rightarrow> u64 \<Rightarrow> u8 option" where
  "read_at b p i =
     (if q_id (lastBuilderQueue b) = fst p then Some (q_data (lastBuilderQueue b) (snd p + i))
      else case filter (\<lambda>q. q_id q = fst p) (closed b) of
             [] \<Rightarrow> None
           | q # _ \<Rightarrow> Some (q_data q (snd p + i)))"

text \<open>
  \<open>Builder::flush\<close>: notify the writer and reset \<open>unconfirmedSize\<close>.
\<close>

definition flush :: "Builder \<Rightarrow> Builder" where
  "flush b = b\<lparr>notified := Suc (notified b), unconfirmedSize := 0\<rparr>"

text \<open>
  \<open>Builder::builderRotate(copy)\<close>. \<open>chunk\<close> is what \<open>ctx->getMemoryChunk\<close> hands back:
  an exception it raised, or the (uninitialised) contents of the data area of the new chunk.
  \<open>memcpy(nextBuffer->data, msg, messagePosition)\<close> reads \<open>messagePosition\<close> bytes from the
  address of the header; a byte whose source node is no longer in the queue keeps the
  content of the fresh chunk.
\<close>

definition builderRotate :: "layout \<Rightarrow> (exn + (u64 \<Rightarrow> u8)) \<Rightarrow> bool \<Rightarrow> Builder \<Rightarrow> exn + Builder" where
  \<open>builderRotate L chunk copy b =
     (if messageSize b > memoryChunksWriteBufferMax L * MEMORY_CHUNK_SIZE_MB L * 1024 * 1024 then
        Inl (RedoLogException 10072
               (''writer buffer (parameter "write-buffer-max-mb" = ''
                @ to_string (unat (memoryChunksWriteBufferMax L * MEMORY_CHUNK_SIZE_MB L))
                @ '') is too small to fit a message with size: ''
                @ to_string (unat (messageSize b))))
      else case chunk of
        Inl e \<Rightarrow> Inl e
      | Inr fresh \<Rightarrow>
          let nextBuffer = \<lparr>q_id = q_id (lastBuilderQueue b) + 1, q_size = 0,
                             q_start = 0, q_data = fresh\<rparr>
          in if copy \<and> msg b \<noteq> None
                \<and> messageSize b + messagePosition b < OUTPUT_BUFFER_DATA_SIZE L then
               let m = the (msg b);
                   copied = (\<lambda>i. if i < messagePosition b then
                                    (case read_at b (m_at m) i of Some v \<Rightarrow> v | None \<Rightarrow> fresh i)
                                  else fresh i);
                   nb = nextBuffer\<lparr>q_data := copied, q_start := 0\<rparr>;
                   m' = m\<lparr>m_at := (q_id nb, 0), m_data := (q_id nb, SIZEOF_BuilderMsg L)\<rparr>
               in Inr (b\<lparr>closed := closed b @ [lastBuilderQueue b],
                          lastBuilderQueue := nb,
                          buffersAllocated := buffersAllocated b + 1,
                          msg := Some m'\<rparr>)
             else
               let old = (lastBuilderQueue b)\<lparr>q_size := q_size (lastBuilderQueue b) + messagePosition b\<rparr>;
                   nb = nextBuffer\<lparr>q_start := BUFFER_START_UNDEFINED\<rparr>
               in Inr (b\<lparr>closed := closed b @ [old],
                          lastBuilderQueue := nb,
                          buffersAllocated := buffersAllocated b + 1,
                          messageSize := messageSize b + messagePosition b,
                          messagePosition := 0\<rparr>))\<close>

text \<open>\<open>Builder::builderShiftFast(bytes)\<close>.\<close>

definition builderShiftFast :: "u64 \<Rightarrow> Builder \<Rightarrow> Builder" where
  "builderShiftFast bytes b = b\<lparr>messagePosition := messagePosition b + bytes\<rparr>"

text \<open>\<open>Builder::builderShift(copy)\<close>.\<close>

definition builderShift :: "layout \<Rightarrow> (exn + (u64 \<Rightarrow> u8)) \<Rightarrow> bool \<Rightarrow> Builder \<Rightarrow> exn + Builder" where
  "builderShift L chunk copy b =
     (let b1 = b\<lparr>messagePosition := messagePosition b + 1\<rparr>
      in if q_size (lastBuilderQueue b1) + messagePosition b1 \<ge> OUTPUT_BUFFER_DATA_SIZE L then
           builderRotate L chunk copy b1
         else Inr b1)"

text \<open>
  \<open>Builder::builderBegin(scn, sequence, obj, flags)\<close>. The header is placed at
  \<open>lastBuilderQueue->data + lastBuilderQueue->size\<close>.
\<close>

definition place_header :: "layout \<Rightarrow> u64 \<Rightarrow> u32 \<Rightarrow> u32 \<Rightarrow> u16 \<Rightarrow> Builder \<Rightarrow> Builder" where
  "place_header L scn sequence obj flags b =
     (let lq = lastBuilderQueue b;
          b1 = builderShiftFast (SIZEOF_BuilderMsg L) b;
          m = \<lparr>m_at = (q_id lq, q_size lq), m_id = next_id b, m_queueId = 0, m_size = 0,
               m_tagSize = 0, m_scn = scn, m_lwnScn = lwnScn b, m_lwnIdx = lwnIdx b,
               m_data = (q_id lq, q_size lq + SIZEOF_BuilderMsg L),
               m_sequence = sequence, m_obj = obj, m_flags = flags\<rparr>
      in b1\<lparr>msg := Some m, lwnIdx := lwnIdx b + 1, next_id := next_id b + 1\<rparr>)"

definition builderBegin ::
  "layout \<Rightarrow> (exn + (u64 \<Rightarrow> u8)) \<Rightarrow> u64 \<Rightarrow> u32 \<Rightarrow> u32 \<Rightarrow> u16 \<Rightarrow> Builder \<Rightarrow> exn + Builder" where
  "builderBegin L chunk scn sequence obj flags b =
     (let b1 = b\<lparr>messageSize := 0, messagePosition := 0\<rparr>;
          scn1 = (if scnType b AND SCN_COMMIT_VALUE \<noteq> 0 then commitScn b else scn)
      in if q_size (lastBuilderQueue b1) + messagePosition b1 + SIZEOF_BuilderMsg L
              \<ge> OUTPUT_BUFFER_DATA_SIZE L then
           (case builderRotate L chunk True b1 of
              Inl e \<Rightarrow> Inl e
            | Inr b2 \<Rightarrow> Inr (place_header L scn1 sequence obj flags b2))
         else Inr (place_header L scn1 sequence obj flags b1))"

text \<open>
  \<open>Builder::builderCommit()\<close>. The source dereferences \<open>msg\<close> without a test; a commit
  with no message begun is a null dereference: undefined behaviour, \<open>None\<close> in the model.
\<close>

definition builderCommit :: "layout \<Rightarrow> Builder \<Rightarrow> (exn + Builder) option" where
  "builderCommit L b =
     (let b1 = b\<lparr>messageSize := messageSize b + messagePosition b\<rparr>
      in if messageSize b1 = SIZEOF_BuilderMsg L then
           Some (Inl (RedoLogException 50058 ''output buffer - commit of empty transaction''))
         else case msg b1 of
           None \<Rightarrow> None
         | Some m \<Rightarrow>
             let m1 = m\<lparr>m_queueId := q_id (lastBuilderQueue b1)\<rparr>;
                 b2 = builderShiftFast ((8 - (messagePosition b1 AND 7)) AND 7) b1;
                 b3 = b2\<lparr>unconfirmedSize := unconfirmedSize b2 + messageSize b2\<rparr>;
                 m2 = m1\<lparr>m_size := messageSize b3 - SIZEOF_BuilderMsg L\<rparr>;
                 b4 = b3\<lparr>msg := None, committed := committed b3 @ [m2]\<rparr>;
                 lq = (lastBuilderQueue b4)\<lparr>q_size := q_size (lastBuilderQueue b4) + messagePosition b4\<rparr>;
                 lq1 = (if q_start lq = BUFFER_START_UNDEFINED then lq\<lparr>q_start := q_size lq\<rparr> else lq);
                 b5 = b4\<lparr>lastBuilderQueue := lq1\<rparr>
             in Some (Inr (if flushBuffer b5 = 0 \<or> unconfirmedSize b5 > flushBuffer b5
                           then flush b5 else b5)))"

text \<open>
  \<open>Builder::append(char)\<close>: store the character at the write position, then
  \<open>builderShift(true)\<close>.
\<close>

definition append_char :: "layout \<Rightarrow> (exn + (u64 \<Rightarrow> u8)) \<Rightarrow> u8 \<Rightarrow> Builder \<Rightarrow> exn + Builder" where
  "append_char L chunk c b =
     (let lq = lastBuilderQueue b;
          lq1 = lq\<lparr>q_data := (q_data lq)(q_size lq + messagePosition b := c)\<rparr>
      in builderShift L chunk True (b\<lparr>lastBuilderQueue := lq1\<rparr>))"

text \<open>
  \<open>Builder::append(const char* str, uint64_t size)\<close>: one \<open>memcpy\<close> when the bytes fit
  below the end of the node, otherwise character by character. \<open>alloc\<close> gives, for the id
  of a new node, what \<open>ctx->getMemoryChunk\<close> returns for it.
\<close>

definition write_bytes :: "(u64 \<Rightarrow> u8) \<Rightarrow> u64 \<Rightarrow> u8 list \<Rightarrow> (u64 \<Rightarrow> u8)" where
  "write_bytes d off cs = (\<lambda>i. if unat (i - off) < length cs then cs ! unat (i - off) else d i)"

fun append_chars :: "layout \<Rightarrow> (u64 \<Rightarrow> exn + (u64 \<Rightarrow> u8)) \<Rightarrow> u8 list \<Rightarrow> Builder \<Rightarrow> exn + Builder" where
  "append_chars L alloc [] b = Inr b"
| "append_chars L alloc (c # cs) b =
     (case append_char L (alloc (q_id (lastBuilderQueue b) + 1)) c b of
        Inl e \<Rightarrow> Inl e
      | Inr b1 \<Rightarrow> append_chars L alloc cs b1)"

definition append_str :: "layout \<Rightarrow> (u64 \<Rightarrow> exn + (u64 \<Rightarrow> u8)) \<Rightarrow> u8 list \<Rightarrow> Builder \<Rightarrow> exn + Builder" where
  "append_str L alloc str b =
     (let lq = lastBuilderQueue b; n = (of_nat (length str) :: u64)
      in if q_size lq + messagePosition b + n < OUTPUT_BUFFER_DATA_SIZE L then
           Inr (b\<lparr>lastBuilderQueue := lq\<lparr>q_data := write_bytes (q_data lq) (q_size lq + messagePosition b) str\<rparr>,
                   messagePosition := messagePosition b + n\<rparr>)
         else append_chars L alloc str b)"

text \<open>
  The producer's operations on the queue, and a run of them. An exception ends the run, as
  it leaves the producer's call.
\<close>

datatype builder_op =
    Begin u64 u32 u32 u16
  | Append_char u8
  | Append_str "u8 list"
  | Commit

fun builder_step ::
  "layout \<Rightarrow> (u64 \<Rightarrow> exn + (u64 \<Rightarrow> u8)) \<Rightarrow> builder_op \<Rightarrow> Builder \<Rightarrow> (exn + Builder) option" where
  "builder_step L alloc (Begin scn sequence obj flags) b =
     Some (builderBegin L (alloc (q_id (lastBuilderQueue b) + 1)) scn sequence obj flags b)"
| "builder_step L alloc (Append_char c) b =
     Some (append_char L (alloc (q_id (lastBuilderQueue b) + 1)) c b)"
| "builder_step L alloc (Append_str cs) b = Some (append_str L alloc cs b)"
| "builder_step L alloc Commit b = builderCommit L b"

fun run_ops ::
  "layout \<Rightarrow> (u64 \<Rightarrow> exn + (u64 \<Rightarrow> u8)) \<Rightarrow> Builder \<Rightarrow> builder_op list \<Rightarrow> (exn + Builder) option" where
  "run_ops L alloc b [] = Some (Inr b)"
| "run_ops L alloc b (x # xs) =
     (case builder_step L alloc x b of
        None \<Rightarrow> None
      | Some (Inl e) \<Rightarrow> Some (Inl e)
      | Some (Inr b1) \<Rightarrow> run_ops L alloc b1 xs)"

text \<open>
  The offsets, within their nodes, of the headers that \<open>builderBegin\<close> has placed: the
  finished ones and the one in progress.
\<close>

definition header_offsets :: "Builder \<Rightarrow> u64 list" where
  "header_offsets b =
     map (\<lambda>m. snd (m_at m)) (committed b @ (case msg b of None \<Rightarrow> [] | Some m \<Rightarrow> [m]))"

definition headers_aligned :: "Builder \<Rightarrow> bool" where
  "headers_aligned b =
     (q_size (lastBuilderQueue b) AND 7 = 0 \<and> list_all (\<lambda>off. off AND 7 = 0) (header_offsets b))"

text \<open>What a run left behind of the flush policy: \<open>unconfirmedSize\<close>, \<open>flushBuffer\<close>, notifications.\<close>

definition flush_view :: "Builder \<Rightarrow> u64 \<times> u64 \<times> nat" where
  "flush_view b = (unconfirmedSize b, flushBuffer b, notified b)"

text \<open>The last node as a run left it: id, size, start.\<close>

definition last_view :: "Builder \<Rightarrow> u64 \<times> u64 \<times> u64" where
  "last_view b = (q_id (lastBuilderQueue b), q_size (lastBuilderQueue b), q_start (lastBuilderQueue b))"

subsection \<open>Concrete instances\<close>

text \<open>
  The layout of a 64-bit build with 1 MiB chunks: a \<open>BuilderQueue\<close> of 40 bytes, a
  \<open>BuilderMsg\<close> of 88 bytes, a write buffer of 2048 chunks. A builder with one empty node
  and \<open>flush-buffer\<close> set to 100.
\<close>

definition L_ex :: layout where
  "L_ex = \<lparr>OUTPUT_BUFFER_DATA_SIZE = 1048536, SIZEOF_BuilderMsg = 88,
            memoryChunksWriteBufferMax = 2048, MEMORY_CHUNK_SIZE_MB = 1\<rparr>"

definition zero_chunk :: "u64 \<Rightarrow> u8" where
  "zero_chunk i = 0"

definition alloc_ex :: "u64 \<Rightarrow> exn + (u64 \<Rightarrow> u8)" where
  "alloc_ex qid = Inr zero_chunk"

definition b_init :: Builder where
  "b_init = \<lparr>closed = [],
             lastBuilderQueue = \<lparr>q_id = 0, q_size = 0, q_start = 0, q_data = zero_chunk\<rparr>,
             buffersAllocated = 1, msg = None, committed = [], unconfirmedSize = 0,
             messageSize = 0, messagePosition = 0, flushBuffer = 100, scnType = 0,
             commitScn = 0, lwnScn = 0, lwnIdx = 0, next_id = 0, notified = 0\<rparr>"

text \<open>A message begun on \<open>b_init\<close> with \<open>n\<close> payload bytes written after the header.\<close>

definition b_pending :: "u64 \<Rightarrow> Builder" where
  "b_pending n = builderShiftFast n (place_header L_ex 1 1 1 0 b_init)"

section \<open>Characters and digits (Ctx.h helpers)\<close>

text \<open>
  A C++ \<open>char\<close> is a HOL \<open>char\<close> (eight bits). Whether plain \<open>char\<close> is signed is the
  platform's choice (signed on x86-64 Linux); where the source compares a plain \<open>char\<close>
  with a number, the model takes the signedness as a parameter.
\<close>

definition char_value :: "bool \<Rightarrow> char \<Rightarrow> int" where
  "char_value signed_char c =
     (if signed_char \<and> 128 \<le> (of_char c :: nat) then int (of_char c) - 256 else int (of_char c))"

text \<open>
  \<open>Ctx::map10\<close> and \<open>Ctx::map16\<close> turn a digit value into its character. They are
  declared in \<open>Ctx.h\<close>, which is not among the sources at hand, so the functions below take
  them as parameters. For evaluations on concrete inputs the two instances here are used:
  the character \<open>'0' + x\<close>, and the lower-case hexadecimal digit of \<open>x\<close>.
\<close>

definition map10_ascii :: "u64 \<Rightarrow> char" where
  "map10_ascii x = char_of (48 + unat x)"

definition map16_ascii :: "u64 \<Rightarrow> char" where
  "map16_ascii x = (if x < 10 then char_of (48 + unat x) else char_of (87 + unat x))"

definition backslash :: char where
  "backslash = CHR 0x5C"

definition dquote :: char where
  "dquote = CHR 0x22"

section \<open>The two JSON string escapers\<close>

text \<open>
  \<open>Ctx::writeEscapeValue(ss, str)\<close> (Ctx.cpp): the characters written to the stream for
  one character of the input, and for the whole string. The test \<open>*c_str < 32\<close> is on a
  plain \<open>char\<close>.
\<close>

definition writeEscapeValue_char :: "bool \<Rightarrow> (u64 \<Rightarrow> char) \<Rightarrow> char \<Rightarrow> string" where
  "writeEscapeValue_char signed_char map16 c =
     (if c = CHR 0x09 then [backslash, CHR ''t'']
      else if c = CHR 0x0D then [backslash, CHR ''r'']
      else if c = CHR 0x0A then [backslash, CHR ''n'']
      else if c = CHR 0x08 then [backslash, CHR ''b'']
      else if c = CHR 0x0C then [backslash, CHR ''f'']
      else if c = dquote \<or> c = backslash then [backslash, c]
      else if char_value signed_char c < 32 then
        [backslash, CHR ''u'', CHR ''0'', CHR ''0'',
         map16 (ucast (drop_bit 4 (of_char c :: u8) AND 0x0F)),
         map16 (ucast ((of_char c :: u8) AND 0x0F))]
      else [c])"

definition writeEscapeValue :: "bool \<Rightarrow> (u64 \<Rightarrow> char) \<Rightarrow> string \<Rightarrow> string" where
  "writeEscapeValue signed_char map16 str = concat (map (writeEscapeValue_char signed_char map16) str)"

text \<open>
  \<open>BuilderJson::appendDec(value, size)\<close>: \<open>size\<close> decimal digits of \<open>value\<close>, filled into
  the buffer from the least significant one and emitted in reverse.
\<close>

fun dec_buffer :: "(u64 \<Rightarrow> char) \<Rightarrow> u64 \<Rightarrow> nat \<Rightarrow> string" where
  "dec_buffer map10 v 0 = []"
| "dec_buffer map10 v (Suc n) = map10 (v mod 10) # dec_buffer map10 (v div 10) n"

definition appendDec_sized :: "(u64 \<Rightarrow> char) \<Rightarrow> u64 \<Rightarrow> nat \<Rightarrow> string" where
  "appendDec_sized map10 v n = rev (dec_buffer map10 v n)"

text \<open>
  \<open>BuilderJson::appendEscape(str, size)\<close> (BuilderJson.h): the characters appended to the
  message for one character of the input, and for the whole string. The test for a control
  character is on \<open>static_cast<unsigned char>(*str)\<close>.
\<close>

definition appendEscape_char :: "(u64 \<Rightarrow> char) \<Rightarrow> char \<Rightarrow> string" where
  "appendEscape_char map10 c =
     (if c = CHR 0x09 then [backslash, CHR ''t'']
      else if c = CHR 0x0D then [backslash, CHR ''r'']
      else if c = CHR 0x0A then [backslash, CHR ''n'']
      else if c = CHR 0x0C then [backslash, CHR ''f'']
      else if c = CHR 0x08 then [backslash, CHR ''b'']
      else if (of_char c :: nat) < 32 then
        [backslash, CHR ''u'', CHR ''0'', CHR ''0''] @ appendDec_sized map10 (of_char c) 2
      else (if c = dquote \<or> c = backslash \<or> c = CHR ''/'' then [backslash] else []) @ [c])"

definition appendEscape :: "(u64 \<Rightarrow> char) \<Rightarrow> string \<Rightarrow> string" where
  "appendEscape map10 str = concat (map (appendEscape_char map10) str)"

text \<open>
  The characters on which the two escapers are bound to agree whatever the digit helpers
  and the signedness of \<open>char\<close>: printable ASCII other than the slash, and the five control
  characters with a short escape.
\<close>

definition plain_char :: "char \<Rightarrow> bool" where
  "plain_char c =
     (c \<noteq> CHR ''/''
      \<and> (c = CHR 0x09 \<or> c = CHR 0x0D \<or> c = CHR 0x0A \<or> c = CHR 0x08 \<or> c = CHR 0x0C
         \<or> (32 \<le> (of_char c :: nat) \<and> (of_char c :: nat) < 128)))"

section \<open>Time zones (Ctx.cpp)\<close>

text \<open>The names \<open>Ctx::parseTimezone\<close> replaces by an offset, in the order of the source.\<close>

definition timezone_names :: "(string \<times> string) list" where
  "timezone_names =
    [(''Etc/GMT-14'', ''-14:00''), (''Etc/GMT-13'', ''-13:00''), (''Etc/GMT-12'', ''-12:00''),
     (''Etc/GMT-11'', ''-11:00''), (''HST'', ''-10:00''), (''Etc/GMT-10'', ''-10:00''),
     (''Etc/GMT-9'', ''-09:00''), (''PST'', ''-08:00''), (''PST8PDT'', ''-08:00''),
     (''Etc/GMT-8'', ''-08:00''), (''MST'', ''-07:00''), (''MST7MDT'', ''-07:00''),
     (''Etc/GMT-7'', ''-07:00''), (''CST'', ''-06:00''), (''CST6CDT'', ''-06:00''),
     (''Etc/GMT-6'', ''-06:00''), (''EST'', ''-05:00''), (''EST5EDT'', ''-05:00''),
     (''Etc/GMT-5'', ''-05:00''), (''Etc/GMT-4'', ''-04:00''), (''Etc/GMT-3'', ''-03:00''),
     (''Etc/GMT-2'', ''-02:00''), (''Etc/GMT-1'', ''-01:00''), (''GMT'', ''+00:00''),
     (''Etc/GMT'', ''+00:00''), (''Greenwich'', ''+00:00''), (''Etc/Greenwich'', ''+00:00''),
     (''GMT0'', ''+00:00''), (''Etc/GMT0'', ''+00:00''), (''GMT+0'', ''+00:00''),
     (''Etc/GMT-0'', ''+00:00''), (''GMT+0'', ''+00:00''), (''Etc/GMT+0'', ''+00:00''),
     (''UTC'', ''+00:00''), (''Etc/UTC'', ''+00:00''), (''UCT'', ''+00:00''),
     (''Etc/UCT'', ''+00:00''), (''Universal'', ''+00:00''), (''Etc/Universal'', ''+00:00''),
     (''WET'', ''+00:00''), (''MET'', ''+01:00''), (''CET'', ''+01:00''),
     (''Etc/GMT+1'', ''+01:00''), (''EET'', ''+02:00''), (''Etc/GMT+2'', ''+02:00''),
     (''Etc/GMT+3'', ''+03:00''), (''Etc/GMT+4'', ''+04:00''), (''Etc/GMT+5'', ''+05:00''),
     (''Etc/GMT+6'', ''+06:00''), (''Etc/GMT+7'', ''+07:00''), (''PRC'', ''+08:00''),
     (''ROC'', ''+08:00''), (''Etc/GMT+8'', ''+08:00''), (''Etc/GMT+9'', ''+09:00''),
     (''Etc/GMT+10'', ''+10:00''), (''Etc/GMT+11'', ''+11:00''), (''Etc/GMT+12'', ''+12:00'')]"

text \<open>The chain of \<open>if (strcmp(str, name) == 0) str = offset;\<close> statements.\<close>

definition replace_names :: "string \<Rightarrow> string" where
  "replace_names str = foldl (\<lambda>s (name, off). if s = name then off else s) str timezone_names"

definition is_digit :: "char \<Rightarrow> bool" where
  "is_digit c = (of_char (CHR ''0'') \<le> (of_char c :: nat) \<and> (of_char c :: nat) \<le> of_char (CHR ''9''))"

text \<open>\<open>c - '0'\<close>, in \<open>int\<close> as the source computes it.\<close>

definition digit_of :: "char \<Rightarrow> int" where
  "digit_of c = of_char c - of_char (CHR ''0'')"

text \<open>
  \<open>Ctx::parseTimezone(str, out)\<close>: the returned flag and the value of \<open>out\<close> afterwards.
  The unary minus of the source binds to the first digit only.
\<close>

definition parseTimezone :: "string \<Rightarrow> int \<Rightarrow> bool \<times> int" where
  "parseTimezone str0 out0 =
     (let str = replace_names str0 in
      if length str = 5 then
        (if is_digit (str ! 1) \<and> str ! 2 = CHR '':'' \<and> is_digit (str ! 3) \<and> is_digit (str ! 4) then
           (let out = - (digit_of (str ! 1)) * 3600 + digit_of (str ! 3) * 60 + digit_of (str ! 4)
            in if str ! 0 = CHR ''-'' then (True, - out)
               else if str ! 0 \<noteq> CHR ''+'' then (False, out)
               else (True, out))
         else (False, out0))
      else if length str = 6 then
        (if is_digit (str ! 1) \<and> is_digit (str ! 2) \<and> str ! 3 = CHR '':''
             \<and> is_digit (str ! 4) \<and> is_digit (str ! 5) then
           (let out = - (digit_of (str ! 1)) * 36000 + digit_of (str ! 2) * 3600
                        + digit_of (str ! 4) * 60 + digit_of (str ! 5)
            in if str ! 0 = CHR ''-'' then (True, - out)
               else if str ! 0 \<noteq> CHR ''+'' then (False, out)
               else (True, out))
         else (False, out0))
      else (False, out0))"

text \<open>
  \<open>Ctx::timezoneToString(tz)\<close>. After the sign is taken \<open>tz\<close> is not negative, so the
  truncating division of C++ and \<open>div\<close> agree.
\<close>

definition timezoneToString :: "(u64 \<Rightarrow> char) \<Rightarrow> int \<Rightarrow> string" where
  "timezoneToString map10 tz0 =
     (let r0 = (if tz0 < 0 then CHR ''-'' else CHR ''+'');
          tz = (if tz0 < 0 then - tz0 else tz0);
          tz1 = tz div 60;
          r5 = map10 (of_int (tz1 mod 10));
          tz2 = tz1 div 10;
          r4 = map10 (of_int (tz2 mod 6));
          tz3 = tz2 div 6;
          r2 = map10 (of_int (tz3 mod 10));
          tz4 = tz3 div 10;
          r1 = map10 (of_int (tz4 mod 10))
      in [r0, r1, r2, CHR '':'', r4, r5])"

text \<open>Parsing and printing again; \<open>None\<close> when the parser rejects the string.\<close>

definition timezone_roundtrip :: "(u64 \<Rightarrow> char) \<Rightarrow> string \<Rightarrow> string option" where
  "timezone_roundtrip map10 s =
     (if fst (parseTimezone s 0) then Some (timezoneToString map10 (snd (parseTimezone s 0))) else None)"

section \<open>Null columns in the JSON builder (BuilderJson.h, DbColumn.h)\<close>

text \<open>
  The column types \<open>BuilderJson::columnNull\<close> names (\<open>SysCol::COLTYPE\<close>); every other
  type number is \<open>OTHER_TYPE\<close>, and \<open>CHAR_TYPE\<close> stands for \<open>COLTYPE::CHAR\<close>. The enumeration itself is in \<open>SysCol.h\<close>, not among the
  sources at hand; the model uses that its members are distinct.
\<close>

datatype COLTYPE =
    VARCHAR | NUMBER | DATE | RAW | CHAR_TYPE | FLOAT | DOUBLE | XMLTYPE | JSON | CLOB | BLOB
  | TIMESTAMP | INTERVAL_YEAR_TO_MONTH | INTERVAL_DAY_TO_SECOND | UROWID
  | TIMESTAMP_WITH_LOCAL_TZ | OTHER_TYPE nat

text \<open>\<open>class DbColumn\<close>, field by field.\<close>

record DbColumn =
  c_col :: int
  c_guardSeg :: int
  c_segCol :: int
  c_name :: string
  c_type :: COLTYPE
  c_length :: nat
  c_precision :: int
  c_scale :: int
  c_charsetId :: u64
  c_numPk :: int
  c_nullable :: bool
  c_hidden :: bool
  c_storedAsLob :: bool
  c_systemGenerated :: bool
  c_nested :: bool
  c_unused :: bool
  c_added :: bool
  c_guard :: bool
  c_xmlType :: bool
  c_nullWarning :: bool

text \<open>Of \<open>class DbTable\<close> the builder reads the vector \<open>columns\<close>.\<close>

record DbTable =
  columns :: "DbColumn list"

datatype REDO_FLAGS =
  SHOW_GUARD_COLUMNS | SHOW_NESTED_COLUMNS | SHOW_HIDDEN_COLUMNS | SHOW_UNUSED_COLUMNS

datatype UNKNOWN_TYPE = UNKNOWN_HIDE | UNKNOWN_SHOW

text \<open>
  Of the JSON builder: the option \<open>unknownType\<close>, the flag \<open>hasPreviousColumn\<close>, and the
  characters appended to the message so far.
\<close>

record BuilderJson =
  unknownType :: UNKNOWN_TYPE
  hasPreviousColumn :: bool
  emitted :: string

text \<open>
  The type test of \<open>columnNull\<close>, as the source writes it: true when the column is to be
  dropped for its type.
\<close>

definition type_hidden :: "COLTYPE \<Rightarrow> bool \<Rightarrow> bool" where
  "type_hidden typeNo after =
     (typeNo \<noteq> VARCHAR
      \<and> typeNo \<noteq> NUMBER
      \<and> typeNo \<noteq> DATE
      \<and> typeNo \<noteq> RAW
      \<and> typeNo \<noteq> CHAR_TYPE
      \<and> typeNo \<noteq> FLOAT
      \<and> typeNo \<noteq> DOUBLE
      \<and> (typeNo \<noteq> XMLTYPE \<or> \<not> after)
      \<and> (typeNo \<noteq> JSON \<or> \<not> after)
      \<and> (typeNo \<noteq> CLOB \<or> \<not> after)
      \<and> (typeNo \<noteq> BLOB \<or> \<not> after)
      \<and> typeNo \<noteq> TIMESTAMP
      \<and> typeNo \<noteq> INTERVAL_YEAR_TO_MONTH
      \<and> typeNo \<noteq> INTERVAL_DAY_TO_SECOND
      \<and> typeNo \<noteq> UROWID
      \<and> typeNo \<noteq> TIMESTAMP_WITH_LOCAL_TZ)"

text \<open>The tail of \<open>columnNull\<close>: the separator, the quoted name and \<open>:null\<close>.\<close>

definition emit_null :: "string \<Rightarrow> BuilderJson \<Rightarrow> BuilderJson" where
  "emit_null shown_name b =
     b\<lparr>emitted := emitted b @ (if hasPreviousColumn b then '','' else [])
                    @ [dquote] @ shown_name @ [dquote] @ '':null'',
       hasPreviousColumn := True\<rparr>"

text \<open>
  \<open>BuilderJson::columnNull(table, col, after)\<close>. \<open>table\<close> is \<open>None\<close> for the null pointer.
  An index outside \<open>table->columns\<close> is undefined behaviour, \<open>None\<close> in the model.
\<close>

definition columnNull ::
  "(u64 \<Rightarrow> char) \<Rightarrow> (REDO_FLAGS \<Rightarrow> bool) \<Rightarrow> DbTable option \<Rightarrow> nat \<Rightarrow> bool \<Rightarrow> BuilderJson
     \<Rightarrow> BuilderJson option" where
  "columnNull map10 isFlagSet table col after b =
     (case table of
        None \<Rightarrow> Some (emit_null (''COL_'' @ to_string col) b)
      | Some t \<Rightarrow>
          if col \<ge> length (columns t) then None
          else
            let column = columns t ! col in
            if unknownType b = UNKNOWN_HIDE
               \<and> ((c_guard column \<and> \<not> isFlagSet SHOW_GUARD_COLUMNS)
                  \<or> (c_nested column \<and> \<not> isFlagSet SHOW_NESTED_COLUMNS)
                  \<or> (c_hidden column \<and> \<not> isFlagSet SHOW_HIDDEN_COLUMNS)
                  \<or> (c_unused column \<and> \<not> isFlagSet SHOW_UNUSED_COLUMNS)
                  \<or> type_hidden (c_type column) after)
            then Some b
            else Some (emit_null (appendEscape map10 (c_name column)) b))"

text \<open>
  The allowed set in the words of the specification: char or varchar, number, date, raw,
  float, double, timestamp, the two interval types, urowid, timestamp with local time zone,
  and, for the "after" image only, the large-object, XML and JSON types.
\<close>

definition null_allowed :: "COLTYPE \<Rightarrow> bool \<Rightarrow> bool" where
  "null_allowed typeNo after =
     (typeNo \<in> {CHAR_TYPE, VARCHAR, NUMBER, DATE, RAW, FLOAT, DOUBLE, TIMESTAMP,
                 INTERVAL_YEAR_TO_MONTH, INTERVAL_DAY_TO_SECOND, UROWID, TIMESTAMP_WITH_LOCAL_TZ}
      \<or> (after \<and> typeNo \<in> {CLOB, BLOB, XMLTYPE, JSON}))"

text \<open>A column is kept back when it is guard, nested, hidden or unused and the flag that shows it is off.\<close>

definition kept_back :: "(REDO_FLAGS \<Rightarrow> bool) \<Rightarrow> DbColumn \<Rightarrow> bool" where
  "kept_back isFlagSet column =
     ((c_guard column \<and> \<not> isFlagSet SHOW_GUARD_COLUMNS)
      \<or> (c_nested column \<and> \<not> isFlagSet SHOW_NESTED_COLUMNS)
      \<or> (c_hidden column \<and> \<not> isFlagSet SHOW_HIDDEN_COLUMNS)
      \<or> (c_unused column \<and> \<not> isFlagSet SHOW_UNUSED_COLUMNS))"

subsection \<open>Concrete instances\<close>

definition column_ex :: "string \<Rightarrow> COLTYPE \<Rightarrow> bool \<Rightarrow> DbColumn" where
  "column_ex n t h =
     \<lparr>c_col = 0, c_guardSeg = -1, c_segCol = 0, c_name = n, c_type = t, c_length = 10,
      c_precision = -1, c_scale = -1, c_charsetId = 873, c_numPk = 0, c_nullable = True,
      c_hidden = h, c_storedAsLob = False, c_systemGenerated = False, c_nested = False,
      c_unused = False, c_added = False, c_guard = False, c_xmlType = False,
      c_nullWarning = False\<rparr>"

definition table_ex :: DbTable where
  "table_ex = \<lparr>columns = [column_ex ''ID'' NUMBER False, column_ex ''DOC'' CLOB False,
                          column_ex ''SECRET'' VARCHAR True, column_ex ''LOC'' (OTHER_TYPE 121) False]\<rparr>"

definition no_flags :: "REDO_FLAGS \<Rightarrow> bool" where
  "no_flags f = False"

definition json_ex :: BuilderJson where
  "json_ex = \<lparr>unknownType = UNKNOWN_HIDE, hasPreviousColumn = True, emitted = []\<rparr>"

section \<open>The memory manager (Ctx.cpp)\<close>

text \<open>\<open>enum MEMORY\<close>, in the order of \<open>Ctx::memoryModules\<close>.\<close>

datatype MEMORY = BUILDER | PARSER | READER | TRANSACTIONS

text \<open>
  The members of \<open>Ctx\<close> that \<open>getMemoryChunk\<close> and \<open>wontSwap\<close> read or write.
  \<open>memoryChunks\<close> holds the addresses of the free chunks. \<open>hints\<close> is the text \<open>hint()\<close>
  has logged.
\<close>

record Ctx =
  memoryChunks :: "u64 \<Rightarrow> nat"
  memoryChunksMax :: u64
  memoryChunksAllocated :: u64
  memoryChunksFree :: u64
  memoryChunksHWM :: u64
  memoryModulesAllocated :: "MEMORY \<Rightarrow> u64"
  memoryModulesHWM :: "MEMORY \<Rightarrow> u64"
  outOfMemoryParser :: bool
  memoryChunksReadBufferMin :: u64
  memoryChunksUnswapBufferMin :: u64
  memoryChunksWriteBufferMaxC :: u64
  memoryChunksWriteBufferMin :: u64
  hardShutdown :: bool
  hints :: "string list"

definition memoryModules :: "MEMORY \<Rightarrow> string" where
  "memoryModules m = (case m of BUILDER \<Rightarrow> ''builder'' | PARSER \<Rightarrow> ''parser''
                      | READER \<Rightarrow> ''reader'' | TRANSACTIONS \<Rightarrow> ''transaction'')"

text \<open>The chunks \<open>getMemoryChunk\<close> keeps back for the reader, the builder and unswapping.\<close>

definition reservedChunks :: "bool \<Rightarrow> Ctx \<Rightarrow> u64" where
  "reservedChunks swap c =
     (let r0 = (0 :: u64);
          r1 = (if memoryModulesAllocated c READER < memoryChunksReadBufferMin c
                then r0 + (memoryChunksReadBufferMin c - memoryModulesAllocated c READER) else r0);
          r2 = (if memoryModulesAllocated c BUILDER < memoryChunksWriteBufferMin c
                then r1 + (memoryChunksWriteBufferMin c - memoryModulesAllocated c BUILDER) else r1)
      in if \<not> swap then r2 + memoryChunksUnswapBufferMin c else r2)"

text \<open>
  One pass through the body of the \<open>while (true)\<close> loop of \<open>Ctx::getMemoryChunk\<close>: the loop
  is left by \<open>break\<close>, the function returns the null pointer, an exception is thrown, or
  the thread reaches \<open>condOutOfMemory.wait(lck)\<close>. \<open>os_chunk\<close> is what \<open>aligned_alloc\<close>
  would return (\<open>None\<close> for the null pointer); \<open>chunk_mb\<close> is \<open>MEMORY_CHUNK_SIZE_MB\<close>.
\<close>

datatype loop_step = Break Ctx | Wait Ctx | Return_null Ctx | Throw exn

definition getMemoryChunk_pass :: "u64 \<Rightarrow> MEMORY \<Rightarrow> bool \<Rightarrow> nat option \<Rightarrow> Ctx \<Rightarrow> loop_step" where
  "getMemoryChunk_pass chunk_mb module swap os_chunk c =
     (if module = READER \<and> memoryModulesAllocated c READER < memoryChunksReadBufferMin c then Break c
      else if module = BUILDER \<and> memoryModulesAllocated c BUILDER < memoryChunksWriteBufferMin c then Break c
      else
        let may_take = (module \<noteq> BUILDER
                        \<or> memoryModulesAllocated c BUILDER < memoryChunksWriteBufferMaxC c)
        in if may_take \<and> memoryChunksFree c > reservedChunks swap c then Break c
           else if may_take \<and> memoryChunksAllocated c < memoryChunksMax c then
             (case os_chunk of
                None \<Rightarrow> Throw (RuntimeException 10016
                                 (''couldn't allocate '' @ to_string (unat chunk_mb)
                                  @ '' bytes memory for: '' @ memoryModules module))
              | Some p \<Rightarrow>
                  let c1 = c\<lparr>memoryChunks := (memoryChunks c)(memoryChunksFree c := p),
                             memoryChunksFree := memoryChunksFree c + 1,
                             memoryChunksAllocated := memoryChunksAllocated c + 1\<rparr>
                  in Break (if memoryChunksAllocated c1 > memoryChunksHWM c1
                            then c1\<lparr>memoryChunksHWM := memoryChunksAllocated c1\<rparr> else c1))
           else
             let c1 = (if module = PARSER then c\<lparr>outOfMemoryParser := True\<rparr> else c)
             in if hardShutdown c1 then Return_null c1 else Wait c1)"

text \<open>What follows the loop: the chunk on top of the free stack goes to the module.\<close>

definition take_chunk :: "MEMORY \<Rightarrow> Ctx \<Rightarrow> nat \<times> Ctx" where
  "take_chunk module c =
     (let c1 = (if module = PARSER then c\<lparr>outOfMemoryParser := False\<rparr> else c);
          c2 = c1\<lparr>memoryChunksFree := memoryChunksFree c1 - 1\<rparr>;
          c3 = c2\<lparr>memoryModulesAllocated :=
                     (memoryModulesAllocated c2)(module := memoryModulesAllocated c2 module + 1)\<rparr>;
          c4 = (if memoryModulesAllocated c3 module > memoryModulesHWM c3 module
                then c3\<lparr>memoryModulesHWM :=
                           (memoryModulesHWM c3)(module := memoryModulesAllocated c3 module)\<rparr>
                else c3)
      in (memoryChunks c4 (memoryChunksFree c4), c4))"

text \<open>
  \<open>Ctx::getMemoryChunk(t, module, swap)\<close>. While the thread waits on \<open>condOutOfMemory\<close> the
  mutex is released and other threads change the state: \<open>wakes\<close> lists, for each time the
  thread is woken, what the others have done since it fell asleep. When the list is used
  up and the thread has to wait once more, it stays suspended.
\<close>

datatype outcome = Chunk nat Ctx | Null Ctx | Raised exn Ctx | Suspended Ctx

fun getMemoryChunk :: "u64 \<Rightarrow> MEMORY \<Rightarrow> bool \<Rightarrow> nat option \<Rightarrow> (Ctx \<Rightarrow> Ctx) list \<Rightarrow> Ctx \<Rightarrow> outcome" where
  "getMemoryChunk chunk_mb module swap os_chunk wakes c =
     (case getMemoryChunk_pass chunk_mb module swap os_chunk c of
        Throw e \<Rightarrow> Raised e c
      | Return_null c1 \<Rightarrow> Null c1
      | Break c1 \<Rightarrow>
          (let (chunk, c2) = take_chunk module c1
           in if hardShutdown c2
              then Raised (RuntimeException 10018 ''shutdown during memory allocation'') c2
              else Chunk chunk c2)
      | Wait c1 \<Rightarrow>
          (case wakes of
             [] \<Rightarrow> Suspended c1
           | w # ws \<Rightarrow> getMemoryChunk chunk_mb module swap os_chunk ws (w c1)))"

text \<open>
  \<open>Ctx::wontSwap(t)\<close>: returns with the state as it was, or logs its hints and throws.
\<close>

definition wontSwap :: "u64 \<Rightarrow> Ctx \<Rightarrow> (exn \<times> Ctx) + Ctx" where
  \<open>wontSwap chunk_mb c =
     (if \<not> outOfMemoryParser c then Inr c
      else if memoryModulesAllocated c BUILDER > memoryChunksWriteBufferMin c then Inr c
      else
        let h1 = ''try to restart with higher value of 'memory-max-mb' parameter or if big transaction - add to 'skip-xid' list; transaction would be skipped'';
            h2 = ''amount of disk buffer is too high, try to decrease 'memory-read-buffer-max-mb' parameter, current utilization: ''
                 @ to_string (unat (memoryModulesAllocated c READER * chunk_mb)) @ ''MB'';
            c1 = c\<lparr>hints := hints c @ [h1]\<rparr>;
            c2 = (if memoryModulesAllocated c1 READER > 5 then c1\<lparr>hints := hints c1 @ [h2]\<rparr> else c1)
        in Inl (RuntimeException 10017 ''out of memory'', c2))\<close>

subsection \<open>Concrete instances\<close>

text \<open>
  A manager whose 64 chunks are all allocated and in use: 4 by the builder (its minimum),
  4 by the reader, 56 by the parser.
\<close>

definition ctx_full :: Ctx where
  "ctx_full =
     \<lparr>memoryChunks = (\<lambda>i. 0), memoryChunksMax = 64, memoryChunksAllocated = 64,
      memoryChunksFree = 0, memoryChunksHWM = 64,
      memoryModulesAllocated = (\<lambda>m. case m of BUILDER \<Rightarrow> 4 | PARSER \<Rightarrow> 56 | READER \<Rightarrow> 4
                                      | TRANSACTIONS \<Rightarrow> 0),
      memoryModulesHWM = (\<lambda>m. case m of BUILDER \<Rightarrow> 4 | PARSER \<Rightarrow> 56 | READER \<Rightarrow> 4
                                | TRANSACTIONS \<Rightarrow> 0),
      outOfMemoryParser = False, memoryChunksReadBufferMin = 4, memoryChunksUnswapBufferMin = 4,
      memoryChunksWriteBufferMaxC = 64, memoryChunksWriteBufferMin = 4, hardShutdown = False,
      hints = []\<rparr>"

text \<open>What an outcome shows of the flag: suspended or not, and \<open>outOfMemoryParser\<close>.\<close>

fun outcome_view :: "outcome \<Rightarrow> string \<times> bool" where
  "outcome_view (Chunk p c) = (''chunk'', outOfMemoryParser c)"
| "outcome_view (Null c) = (''null'', outOfMemoryParser c)"
| "outcome_view (Raised e c) = (''raised'', outOfMemoryParser c)"
| "outcome_view (Suspended c) = (''suspended'', outOfMemoryParser c)"

section \<open>Reading the configuration (Ctx.cpp, OpenLogReplicator.cpp)\<close>

text \<open>
  A parsed JSON value as the program sees it through rapidjson. \<open>JUInt\<close> is a number for
  which \<open>IsUint64()\<close> holds; \<open>JNumber\<close> is any other number.
\<close>

datatype json =
    JNull
  | JBool bool
  | JUInt u64
  | JNumber
  | JString string
  | JArray "json list"
  | JObject "(string \<times> json) list"

definition members :: "json \<Rightarrow> (string \<times> json) list" where
  "members v = (case v of JObject kvs \<Rightarrow> kvs | _ \<Rightarrow> [])"

definition HasMember :: "json \<Rightarrow> string \<Rightarrow> bool" where
  "HasMember v field = (map_of (members v) field \<noteq> None)"

text \<open>\<open>value[field]\<close>, read by the source only after \<open>HasMember\<close>.\<close>

definition member :: "json \<Rightarrow> string \<Rightarrow> json" where
  "member v field = (case map_of (members v) field of Some x \<Rightarrow> x | None \<Rightarrow> JNull)"

text \<open>
  \<open>Ctx::checkJsonFields(fileName, value, names)\<close>: the first member that is neither in
  \<open>names\<close> nor starts with one of three prefixes raises.
\<close>

definition checkJsonFields :: "string \<Rightarrow> json \<Rightarrow> string list \<Rightarrow> exn + unit" where
  "checkJsonFields fileName v names =
     (case filter (\<lambda>child. child \<notin> set names \<and> take 7 child \<noteq> ''xdb-xnm''
                             \<and> take 7 child \<noteq> ''xdb-xpt'' \<and> take 7 child \<noteq> ''xdb-xqn'')
                  (map fst (members v)) of
        [] \<Rightarrow> Inr ()
      | child # _ \<Rightarrow>
          Inl (DataException 20003
                 (''file: '' @ fileName @ '' - parse error, attribute '' @ child @ '' not expected'')))"

definition getJsonFieldU64 :: "string \<Rightarrow> json \<Rightarrow> string \<Rightarrow> exn + u64" where
  "getJsonFieldU64 fileName v field =
     (if \<not> HasMember v field then
        Inl (DataException 20003 (''file: '' @ fileName @ '' - parse error, field '' @ field @ '' not found''))
      else case member v field of
        JUInt n \<Rightarrow> Inr n
      | _ \<Rightarrow> Inl (DataException 20003 (''file: '' @ fileName @ '' - parse error, field '' @ field
                                        @ '' is not an unsigned 64-bit number'')))"

definition getJsonFieldS :: "string \<Rightarrow> nat \<Rightarrow> json \<Rightarrow> string \<Rightarrow> exn + string" where
  "getJsonFieldS fileName maxLength v field =
     (if \<not> HasMember v field then
        Inl (DataException 20003 (''file: '' @ fileName @ '' - parse error, field '' @ field @ '' not found''))
      else case member v field of
        JString s \<Rightarrow>
          if length s > maxLength then
            Inl (DataException 20003 (''file: '' @ fileName @ '' - parse error, field '' @ field
                                      @ '' is too long ('' @ to_string (length s) @ '', max: ''
                                      @ to_string maxLength @ '')''))
          else Inr s
      | _ \<Rightarrow> Inl (DataException 20003 (''file: '' @ fileName @ '' - parse error, field '' @ field
                                        @ '' is not a string'')))"

definition getJsonFieldO :: "string \<Rightarrow> json \<Rightarrow> string \<Rightarrow> exn + json" where
  "getJsonFieldO fileName v field =
     (if \<not> HasMember v field then
        Inl (DataException 20003 (''file: '' @ fileName @ '' - parse error, field '' @ field @ '' not found''))
      else case member v field of
        JObject kvs \<Rightarrow> Inr (JObject kvs)
      | _ \<Rightarrow> Inl (DataException 20003 (''file: '' @ fileName @ '' - parse error, field '' @ field
                                        @ '' is not an object'')))"

definition getJsonFieldA :: "string \<Rightarrow> json \<Rightarrow> string \<Rightarrow> exn + json list" where
  "getJsonFieldA fileName v field =
     (if \<not> HasMember v field then
        Inl (DataException 20003 (''file: '' @ fileName @ '' - parse error, field '' @ field @ '' not found''))
      else case member v field of
        JArray xs \<Rightarrow> Inr xs
      | _ \<Rightarrow> Inl (DataException 20003 (''file: '' @ fileName @ '' - parse error, field '' @ field
                                        @ '' is not an array'')))"

text \<open>\<open>Ctx::getJsonFieldO(fileName, value, field, num)\<close>: element \<open>num\<close> of an array, an object.\<close>

definition getJsonFieldO_at :: "string \<Rightarrow> json \<Rightarrow> string \<Rightarrow> exn + json" where
  "getJsonFieldO_at fileName element field_num =
     (case element of
        JObject kvs \<Rightarrow> Inr (JObject kvs)
      | _ \<Rightarrow> Inl (DataException 20003 (''file: '' @ fileName @ '' - parse error, field '' @ field_num
                                        @ '' is not an object'')))"

subsection \<open>The memory section\<close>

text \<open>The local variables of \<open>OpenLogReplicator::run\<close> that the memory section sets.\<close>

record memory_cfg =
  memoryMinMb :: u64
  memoryMaxMb :: u64
  memoryReadBufferMaxMb :: u64
  memoryReadBufferMinMb :: u64
  memorySwapMb :: u64
  memorySwapPath :: string
  memoryUnswapBufferMinMb :: u64
  memoryWriteBufferMaxMb :: u64
  memoryWriteBufferMinMb :: u64

text \<open>Their initial values.\<close>

definition memory_defaults :: memory_cfg where
  "memory_defaults =
     \<lparr>memoryMinMb = 32, memoryMaxMb = 2048, memoryReadBufferMaxMb = 128,
      memoryReadBufferMinMb = 4, memorySwapMb = 2048 * 3 div 4, memorySwapPath = ''.'',
      memoryUnswapBufferMinMb = 4, memoryWriteBufferMaxMb = 2048, memoryWriteBufferMinMb = 4\<rparr>"

text \<open>
  The constants of \<open>Ctx.h\<close> the section reads (\<open>MEMORY_CHUNK_SIZE_MB\<close>,
  \<open>MEMORY_CHUNK_MIN_MB\<close>, \<open>JSON_PARAMETER_LENGTH\<close>) are parameters: \<open>chunk_mb\<close>,
  \<open>chunk_min_mb\<close>, \<open>param_len\<close>. Each definition below is one \<open>if (memoryJson.HasMember(...))\<close>
  block of the source, in its order.
\<close>

definition round_chunk :: "u64 \<Rightarrow> u64 \<Rightarrow> u64" where
  "round_chunk chunk_mb v = (v div chunk_mb) * chunk_mb"

definition u64_string :: "u64 \<Rightarrow> string" where
  "u64_string v = to_string (unat v)"

definition mem_min :: "string \<Rightarrow> u64 \<Rightarrow> u64 \<Rightarrow> json \<Rightarrow> memory_cfg \<Rightarrow> exn + memory_cfg" where
  \<open>mem_min fileName chunk_mb chunk_min_mb memoryJson m =
     (if HasMember memoryJson ''min-mb'' then
        (case getJsonFieldU64 fileName memoryJson ''min-mb'' of
           Inl e \<Rightarrow> Inl e
         | Inr v \<Rightarrow>
             let m1 = m\<lparr>memoryMinMb := round_chunk chunk_mb v\<rparr>
             in if memoryMinMb m1 < chunk_min_mb then
                  Inl (ConfigurationException 30001
                         (''bad JSON, invalid "min-mb" value: '' @ u64_string (memoryMinMb m1)
                          @ '', expected: at least '' @ u64_string chunk_min_mb))
                else Inr m1)
      else Inr m)\<close>

definition mem_max :: "string \<Rightarrow> u64 \<Rightarrow> json \<Rightarrow> memory_cfg \<Rightarrow> exn + memory_cfg" where
  \<open>mem_max fileName chunk_mb memoryJson m =
     (if HasMember memoryJson ''max-mb'' then
        (case getJsonFieldU64 fileName memoryJson ''max-mb'' of
           Inl e \<Rightarrow> Inl e
         | Inr v \<Rightarrow>
             let m1 = m\<lparr>memoryMaxMb := round_chunk chunk_mb v\<rparr>
             in if memoryMaxMb m1 < memoryMinMb m1 then
                  Inl (ConfigurationException 30001
                         (''bad JSON, invalid "max-mb" value: '' @ u64_string (memoryMaxMb m1)
                          @ '', expected: at least like "min-mb" value ('' @ u64_string (memoryMinMb m1)
                          @ '')''))
                else
                  let m2 = m1\<lparr>memoryReadBufferMaxMb := memoryMaxMb m1 div 8\<rparr>;
                      m3 = (if memoryReadBufferMaxMb m2 > 128 then m2\<lparr>memoryReadBufferMaxMb := 128\<rparr> else m2);
                      m4 = m3\<lparr>memoryWriteBufferMaxMb := memoryMaxMb m3\<rparr>;
                      m5 = (if memoryWriteBufferMaxMb m4 > 2048 then m4\<lparr>memoryWriteBufferMaxMb := 2048\<rparr> else m4)
                  in Inr (m5\<lparr>memorySwapMb := memoryMaxMb m5 * 3 div 4\<rparr>))
      else Inr m)\<close>

definition mem_unswap :: "string \<Rightarrow> u64 \<Rightarrow> json \<Rightarrow> memory_cfg \<Rightarrow> exn + memory_cfg" where
  "mem_unswap fileName chunk_mb memoryJson m =
     (if HasMember memoryJson ''unswap-buffer-min-mb'' then
        (case getJsonFieldU64 fileName memoryJson ''unswap-buffer-min-mb'' of
           Inl e \<Rightarrow> Inl e
         | Inr v \<Rightarrow> Inr (m\<lparr>memoryUnswapBufferMinMb := round_chunk chunk_mb v\<rparr>))
      else Inr m)"

definition mem_swap :: "string \<Rightarrow> u64 \<Rightarrow> json \<Rightarrow> memory_cfg \<Rightarrow> exn + memory_cfg" where
  \<open>mem_swap fileName chunk_mb memoryJson m =
     (if HasMember memoryJson ''swap-mb'' then
        (case getJsonFieldU64 fileName memoryJson ''swap-mb'' of
           Inl e \<Rightarrow> Inl e
         | Inr v \<Rightarrow>
             let m1 = m\<lparr>memorySwapMb := round_chunk chunk_mb v\<rparr>
             in if memorySwapMb m1 > memoryMaxMb m1 - 4 then
                  Inl (ConfigurationException 30001
                         (''bad JSON, invalid "swap-mb" value: '' @ u64_string (memorySwapMb m1)
                          @ '', expected maximum "max-mb"-1 value ('' @ u64_string (memoryMaxMb m1 - 4)
                          @ '')''))
                else Inr m1)
      else Inr m)\<close>

definition mem_read_min :: "string \<Rightarrow> u64 \<Rightarrow> json \<Rightarrow> memory_cfg \<Rightarrow> exn + memory_cfg" where
  \<open>mem_read_min fileName chunk_mb memoryJson m =
     (if HasMember memoryJson ''read-buffer-min-mb'' then
        (case getJsonFieldU64 fileName memoryJson ''read-buffer-min-mb'' of
           Inl e \<Rightarrow> Inl e
         | Inr v \<Rightarrow>
             let m1 = m\<lparr>memoryReadBufferMinMb := round_chunk chunk_mb v\<rparr>
             in if memoryReadBufferMinMb m1 > memoryMaxMb m1 then
                  Inl (ConfigurationException 30001
                         (''bad JSON, invalid "read-buffer-min-mb" value: ''
                          @ u64_string (memoryReadBufferMaxMb m1)
                          @ '', expected: not greater than "max-mb" value ('' @ u64_string (memoryMaxMb m1)
                          @ '')''))
                else if memoryReadBufferMinMb m1 < 4 then
                  Inl (ConfigurationException 30001
                         (''bad JSON, invalid "read-buffer-min-mb" value: ''
                          @ u64_string (memoryReadBufferMaxMb m1) @ '', expected: at least: 4''))
                else Inr m1)
      else Inr m)\<close>

definition mem_read_max :: "string \<Rightarrow> u64 \<Rightarrow> json \<Rightarrow> memory_cfg \<Rightarrow> exn + memory_cfg" where
  \<open>mem_read_max fileName chunk_mb memoryJson m =
     (if HasMember memoryJson ''read-buffer-max-mb'' then
        (case getJsonFieldU64 fileName memoryJson ''read-buffer-max-mb'' of
           Inl e \<Rightarrow> Inl e
         | Inr v \<Rightarrow>
             let m1 = m\<lparr>memoryReadBufferMaxMb := round_chunk chunk_mb v\<rparr>
             in if memoryReadBufferMaxMb m1 > memoryMaxMb m1 then
                  Inl (ConfigurationException 30001
                         (''bad JSON, invalid "read-buffer-max-mb" value: ''
                          @ u64_string (memoryReadBufferMaxMb m1)
                          @ '', expected: not greater than "max-mb" value ('' @ u64_string (memoryMaxMb m1)
                          @ '')''))
                else if memoryReadBufferMaxMb m1 < memoryReadBufferMinMb m1 then
                  Inl (ConfigurationException 30001
                         (''bad JSON, invalid "read-buffer-max-mb" value: ''
                          @ u64_string (memoryReadBufferMaxMb m1)
                          @ '', expected: at least: "read-buffer-min-mb" value (''
                          @ u64_string (memoryReadBufferMinMb m1) @ '')''))
                else Inr m1)
      else Inr m)\<close>

definition mem_write_min :: "string \<Rightarrow> u64 \<Rightarrow> json \<Rightarrow> memory_cfg \<Rightarrow> exn + memory_cfg" where
  \<open>mem_write_min fileName chunk_mb memoryJson m =
     (if HasMember memoryJson ''write-buffer-min-mb'' then
        (case getJsonFieldU64 fileName memoryJson ''write-buffer-min-mb'' of
           Inl e \<Rightarrow> Inl e
         | Inr v \<Rightarrow>
             let m1 = m\<lparr>memoryWriteBufferMinMb := round_chunk chunk_mb v\<rparr>
             in if memoryWriteBufferMinMb m1 > memoryMaxMb m1 then
                  Inl (ConfigurationException 30001
                         (''bad JSON, invalid "write-buffer-min-mb" value: ''
                          @ u64_string (memoryWriteBufferMinMb m1)
                          @ '', expected: not greater than "max-mb" value ('' @ u64_string (memoryMaxMb m1)
                          @ '')''))
                else if memoryWriteBufferMinMb m1 < 4 then
                  Inl (ConfigurationException 30001
                         (''bad JSON, invalid "write-buffer-min-mb" value: ''
                          @ u64_string (memoryWriteBufferMinMb m1) @ '', expected: at least: 4''))
                else Inr m1)
      else Inr m)\<close>

definition mem_write_max :: "string \<Rightarrow> u64 \<Rightarrow> json \<Rightarrow> memory_cfg \<Rightarrow> exn + memory_cfg" where
  \<open>mem_write_max fileName chunk_mb memoryJson m =
     (if HasMember memoryJson ''write-buffer-max-mb'' then
        (case getJsonFieldU64 fileName memoryJson ''write-buffer-max-mb'' of
           Inl e \<Rightarrow> Inl e
         | Inr v \<Rightarrow>
             let m1 = m\<lparr>memoryWriteBufferMaxMb := round_chunk chunk_mb v\<rparr>
             in if memoryWriteBufferMaxMb m1 > memoryMaxMb m1 then
                  Inl (ConfigurationException 30001
                         (''bad JSON, invalid "write-buffer-max-mb" value: ''
                          @ u64_string (memoryWriteBufferMaxMb m1)
                          @ '', expected: not greater than "max-mb" value ('' @ u64_string (memoryMaxMb m1)
                          @ '')''))
                else if memoryWriteBufferMaxMb m1 < memoryWriteBufferMinMb m1 then
                  Inl (ConfigurationException 30001
                         (''bad JSON, invalid "write-buffer-max-mb" value: ''
                          @ u64_string (memoryWriteBufferMaxMb m1)
                          @ '', expected: at least: "write-buffer-min-mb" value (''
                          @ u64_string (memoryWriteBufferMinMb m1) @ '')''))
                else Inr m1)
      else Inr m)\<close>

definition mem_swap_path :: "string \<Rightarrow> nat \<Rightarrow> json \<Rightarrow> memory_cfg \<Rightarrow> exn + memory_cfg" where
  "mem_swap_path fileName param_len memoryJson m =
     (if HasMember memoryJson ''swap-path'' \<and> memorySwapMb m > 0 then
        (case getJsonFieldS fileName param_len memoryJson ''swap-path'' of
           Inl e \<Rightarrow> Inl e
         | Inr s \<Rightarrow> Inr (m\<lparr>memorySwapPath := s\<rparr>))
      else Inr m)"

definition mem_sum_check :: "memory_cfg \<Rightarrow> exn + memory_cfg" where
  \<open>mem_sum_check m =
     (if memoryUnswapBufferMinMb m + memoryReadBufferMinMb m + memoryWriteBufferMinMb m + 4
           > memoryMaxMb m then
        Inl (ConfigurationException 30001
               (''bad JSON, invalid "unswap-buffer-min-mb" + "read-buffer-min-mb" + "write-buffer-min-mb" + 4 (''
                @ u64_string (memoryUnswapBufferMinMb m) @ '' + '' @ u64_string (memoryReadBufferMinMb m)
                @ '' + '' @ u64_string (memoryWriteBufferMinMb m)
                @ '' + 4) is greater than "max-mb" value ('' @ u64_string (memoryMaxMb m) @ '')''))
      else Inr m)\<close>

text \<open>Statements run in sequence until one throws.\<close>

fun in_sequence :: "('s \<Rightarrow> exn + 's) list \<Rightarrow> 's \<Rightarrow> exn + 's" where
  "in_sequence [] s = Inr s"
| "in_sequence (f # fs) s = (case f s of Inl e \<Rightarrow> Inl e | Inr s1 \<Rightarrow> in_sequence fs s1)"

definition memoryNames :: "string list" where
  "memoryNames = [''min-mb'', ''max-mb'', ''read-buffer-max-mb'', ''read-buffer-min-mb'', ''swap-mb'',
                  ''swap-path'', ''unswap-buffer-min-mb'', ''write-buffer-max-mb'', ''write-buffer-min-mb'']"

text \<open>
  The block \<open>// MEMORY\<close> of \<open>OpenLogReplicator::run\<close>. \<open>tags_check\<close> is
  \<open>!ctx->isDisableChecksSet(Ctx::DISABLE_CHECKS::JSON_TAGS)\<close>.
\<close>

definition memory_section ::
  "string \<Rightarrow> u64 \<Rightarrow> u64 \<Rightarrow> nat \<Rightarrow> bool \<Rightarrow> json \<Rightarrow> exn + memory_cfg" where
  "memory_section fileName chunk_mb chunk_min_mb param_len tags_check sourceJson =
     (if HasMember sourceJson ''memory'' then
        (case getJsonFieldO fileName sourceJson ''memory'' of
           Inl e \<Rightarrow> Inl e
         | Inr memoryJson \<Rightarrow>
             (case (if tags_check then checkJsonFields fileName memoryJson memoryNames else Inr ()) of
                Inl e \<Rightarrow> Inl e
              | Inr _ \<Rightarrow>
                  in_sequence
                    [mem_min fileName chunk_mb chunk_min_mb memoryJson,
                     mem_max fileName chunk_mb memoryJson,
                     mem_unswap fileName chunk_mb memoryJson,
                     mem_swap fileName chunk_mb memoryJson,
                     mem_read_min fileName chunk_mb memoryJson,
                     mem_read_max fileName chunk_mb memoryJson,
                     mem_write_min fileName chunk_mb memoryJson,
                     mem_write_max fileName chunk_mb memoryJson,
                     mem_swap_path fileName param_len memoryJson,
                     mem_sum_check]
                    memory_defaults))
      else Inr memory_defaults)"

text \<open>
  The three rules of the specification on an accepted memory configuration, in unbounded
  arithmetic.
\<close>

definition memory_rules :: "memory_cfg \<Rightarrow> bool" where
  "memory_rules m =
     (unat (memoryMinMb m) \<le> unat (memoryMaxMb m)
      \<and> int (unat (memorySwapMb m)) \<le> int (unat (memoryMaxMb m)) - 4
      \<and> unat (memoryUnswapBufferMinMb m) + unat (memoryReadBufferMinMb m)
          + unat (memoryWriteBufferMinMb m) + 4 \<le> unat (memoryMaxMb m))"

subsection \<open>Start-up: OpenLogReplicator::run\<close>

text \<open>
  Constants of headers that are not among the sources at hand, taken as parameters:
  \<open>OpenLogReplicator_SCHEMA_VERSION\<close>, \<open>Checkpoint::CONFIG_FILE_MAX_SIZE\<close>,
  \<open>Ctx::JSON_PARAMETER_LENGTH\<close>, \<open>Ctx::MEMORY_CHUNK_MIN_MB\<close>, \<open>Ctx::MEMORY_CHUNK_SIZE_MB\<close>
  (\<open>CHUNK_SIZE_MB\<close>), \<open>Ctx::LOG::DEBUG\<close>, and the length limits of the filter section.
\<close>

record build_consts =
  SCHEMA_VERSION :: string
  CONFIG_FILE_MAX_SIZE :: nat
  JSON_PARAMETER_LENGTH :: nat
  MEMORY_CHUNK_MIN_MB :: u64
  CHUNK_SIZE_MB :: u64
  LOG_DEBUG :: u64
  SysUser_NAME_LENGTH :: nat
  SysObj_NAME_LENGTH :: nat
  JSON_FORMAT_SEPARATOR_LENGTH :: nat
  JSON_KEY_LENGTH :: nat
  JSON_CONDITION_LENGTH :: nat
  JSON_TAG_LENGTH :: nat

text \<open>
  What the operating system and the JSON parser answer for the configuration file:
  whether \<open>open\<close>, \<open>flock\<close> and \<open>stat\<close> succeed, the size and modification time \<open>stat\<close>
  reports, the count \<open>read\<close> returns, the text of \<open>strerror(errno)\<close>, and the outcome of
  \<open>document.Parse\<close>: the offset and message of a parse error, or the document.
\<close>

record config_file =
  open_ok :: bool
  flock_ok :: bool
  stat_ok :: bool
  st_size :: nat
  st_mtime :: nat
  bytesRead :: nat
  strerror :: string
  parsed :: "(nat \<times> string) + json"

text \<open>The calls of \<open>ctx->info\<close> and \<open>ctx->error\<close>, with code and message, in order.\<close>

datatype log_call = Info_call nat string | Error_call nat string

text \<open>The members of \<open>Ctx\<close> the head of \<open>run\<close> sets, and the calls it logs.\<close>

record startup =
  dumpRedoLog :: u64
  dumpPath :: string
  dumpRawData :: u64
  logLevel :: u64
  trace :: u64
  source_alias :: string
  memory :: memory_cfg
  startup_log :: "log_call list"

definition startup_initial :: startup where
  "startup_initial = \<lparr>dumpRedoLog = 0, dumpPath = ''.'', dumpRawData = 0, logLevel = 3, trace = 0,
                        source_alias = [], memory = memory_defaults, startup_log = []\<rparr>"

definition documentNames :: "string list" where
  "documentNames = [''version'', ''dump-path'', ''dump-raw-data'', ''dump-redo-log'', ''log-level'',
                    ''trace'', ''source'', ''target'']"

definition sourceNames :: "string list" where
  "sourceNames = [''alias'', ''memory'', ''name'', ''reader'', ''flags'', ''state'', ''debug'',
                  ''transaction-max-mb'', ''metrics'', ''format'', ''redo-read-sleep-us'',
                  ''arch-read-sleep-us'', ''arch-read-tries'', ''redo-verify-delay-us'',
                  ''refresh-interval-us'', ''arch'', ''filter'']"

text \<open>Opening, locking and reading the file, and parsing it.\<close>

definition read_config :: "build_consts \<Rightarrow> string \<Rightarrow> config_file \<Rightarrow> exn + json" where
  "read_config K configFileName f =
     (if \<not> open_ok f then
        Inl (RuntimeException 10001 (''file: '' @ configFileName @ '' - open for read returned: '' @ strerror f))
      else if \<not> flock_ok f then
        Inl (RuntimeException 10002 (''file: '' @ configFileName @ '' - lock operation returned: '' @ strerror f))
      else if \<not> stat_ok f then
        Inl (RuntimeException 10003 (''file: '' @ configFileName @ '' - get metadata returned: '' @ strerror f))
      else if st_size f > CONFIG_FILE_MAX_SIZE K \<or> st_size f = 0 then
        Inl (ConfigurationException 10004 (''file: '' @ configFileName @ '' - wrong size: '' @ to_string (st_size f)))
      else if bytesRead f \<noteq> st_size f then
        Inl (RuntimeException 10005 (''file: '' @ configFileName @ '' - '' @ to_string (bytesRead f)
                                     @ '' bytes read instead of '' @ to_string (st_size f)))
      else case parsed f of
        Inl (offset, message) \<Rightarrow>
          Inl (DataException 20001 (''file: '' @ configFileName @ '' offset: '' @ to_string offset
                                    @ '' - parse error: '' @ message))
      | Inr document \<Rightarrow> Inr document)"

definition check_version :: "build_consts \<Rightarrow> string \<Rightarrow> json \<Rightarrow> exn + unit" where
  \<open>check_version K configFileName document =
     (case getJsonFieldS configFileName (JSON_PARAMETER_LENGTH K) document ''version'' of
        Inl e \<Rightarrow> Inl e
      | Inr version \<Rightarrow>
          if version \<noteq> SCHEMA_VERSION K then
            Inl (ConfigurationException 30001
                   (''bad JSON, invalid "version" value: '' @ version @ '', expected: '' @ SCHEMA_VERSION K))
          else Inr ())\<close>

definition read_dump :: "build_consts \<Rightarrow> string \<Rightarrow> json \<Rightarrow> startup \<Rightarrow> exn + startup" where
  \<open>read_dump K configFileName document s =
     (if HasMember document ''dump-redo-log'' then
        (case getJsonFieldU64 configFileName document ''dump-redo-log'' of
           Inl e \<Rightarrow> Inl e
         | Inr v \<Rightarrow>
             let s1 = s\<lparr>dumpRedoLog := v\<rparr>
             in if dumpRedoLog s1 > 2 then
                  Inl (ConfigurationException 30001
                         (''bad JSON, invalid "dump-redo-log" value: '' @ u64_string (dumpRedoLog s1)
                          @ '', expected: one of {0 .. 2}''))
                else if dumpRedoLog s1 > 0 then
                  (case (if HasMember document ''dump-path''
                         then map_sum id (\<lambda>p. s1\<lparr>dumpPath := p\<rparr>)
                                (getJsonFieldS configFileName (JSON_PARAMETER_LENGTH K) document ''dump-path'')
                         else Inr s1) of
                     Inl e \<Rightarrow> Inl e
                   | Inr s2 \<Rightarrow>
                       if HasMember document ''dump-raw-data'' then
                         (case getJsonFieldU64 configFileName document ''dump-raw-data'' of
                            Inl e \<Rightarrow> Inl e
                          | Inr r \<Rightarrow>
                              if r > 1 then
                                Inl (ConfigurationException 30001
                                       (''bad JSON, invalid "dump-raw-data" value: '' @ u64_string r
                                        @ '', expected: one of {0, 1}''))
                              else Inr (s2\<lparr>dumpRawData := r\<rparr>))
                       else Inr s2)
                else Inr s1)
      else Inr s)\<close>

definition read_log_level :: "build_consts \<Rightarrow> string \<Rightarrow> json \<Rightarrow> startup \<Rightarrow> exn + startup" where
  \<open>read_log_level K configFileName document s =
     (if HasMember document ''log-level'' then
        (case getJsonFieldU64 configFileName document ''log-level'' of
           Inl e \<Rightarrow> Inl e
         | Inr v \<Rightarrow>
             if v > LOG_DEBUG K then
               Inl (ConfigurationException 30001
                      (''bad JSON, invalid "log-level" value: '' @ u64_string v
                       @ '', expected: one of {0 .. 4}''))
             else Inr (s\<lparr>logLevel := v\<rparr>))
      else Inr s)\<close>

definition read_trace :: "string \<Rightarrow> json \<Rightarrow> startup \<Rightarrow> exn + startup" where
  \<open>read_trace configFileName document s =
     (if HasMember document ''trace'' then
        (case getJsonFieldU64 configFileName document ''trace'' of
           Inl e \<Rightarrow> Inl e
         | Inr v \<Rightarrow>
             if v > 524287 then
               Inl (ConfigurationException 30001
                      (''bad JSON, invalid "trace" value: '' @ u64_string v
                       @ '', expected: one of {0 .. 524287}''))
             else Inr (s\<lparr>trace := v\<rparr>))
      else Inr s)\<close>

text \<open>The one element of the array \<open>source\<close>.\<close>

definition the_source :: "string \<Rightarrow> json \<Rightarrow> exn + json" where
  \<open>the_source configFileName document =
     (case getJsonFieldA configFileName document ''source'' of
        Inl e \<Rightarrow> Inl e
      | Inr sourceArrayJson \<Rightarrow>
          if length sourceArrayJson \<noteq> 1 then
            Inl (ConfigurationException 30001
                   (''bad JSON, invalid "source" value: '' @ to_string (length sourceArrayJson)
                    @ '' elements, expected: 1 element''))
          else getJsonFieldO_at configFileName (sourceArrayJson ! 0) ''source[0]'')\<close>

text \<open>
  \<open>OpenLogReplicator::run\<close> from its first statement on the configuration file to the end
  of the memory section: the source object and what has been read, or the exception
  thrown.
\<close>

definition startup_checks ::
  "build_consts \<Rightarrow> bool \<Rightarrow> string \<Rightarrow> config_file \<Rightarrow> exn + json \<times> startup" where
  "startup_checks K tags_on configFileName f =
     (case read_config K configFileName f of
        Inl e \<Rightarrow> Inl e
      | Inr document \<Rightarrow>
     (case (if tags_on then checkJsonFields configFileName document documentNames else Inr ()) of
        Inl e \<Rightarrow> Inl e
      | Inr _ \<Rightarrow>
     (case check_version K configFileName document of
        Inl e \<Rightarrow> Inl e
      | Inr _ \<Rightarrow>
     (case in_sequence [read_dump K configFileName document, read_log_level K configFileName document,
                        read_trace configFileName document] startup_initial of
        Inl e \<Rightarrow> Inl e
      | Inr s1 \<Rightarrow>
     (case the_source configFileName document of
        Inl e \<Rightarrow> Inl e
      | Inr sourceJson \<Rightarrow>
     (case (if tags_on then checkJsonFields configFileName sourceJson sourceNames else Inr ()) of
        Inl e \<Rightarrow> Inl e
      | Inr _ \<Rightarrow>
     (case getJsonFieldS configFileName (JSON_PARAMETER_LENGTH K) sourceJson ''alias'' of
        Inl e \<Rightarrow> Inl e
      | Inr a \<Rightarrow>
          let s2 = s1\<lparr>source_alias := a,
                      startup_log := startup_log s1 @ [Info_call 0 (''adding source: '' @ a)]\<rparr>
          in (case memory_section configFileName (CHUNK_SIZE_MB K) (MEMORY_CHUNK_MIN_MB K)
                     (JSON_PARAMETER_LENGTH K) tags_on sourceJson of
                Inl e \<Rightarrow> Inl e
              | Inr m \<Rightarrow> Inr (sourceJson, s2\<lparr>memory := m\<rparr>)))))))))"

text \<open>
  \<open>OpenLogReplicator::run\<close>. The function has no \<open>try\<close> block: whatever a statement throws
  leaves \<open>run\<close>. \<open>rest\<close> stands for the statements after the memory section, among them
  \<open>ctx->initialize\<close> and every \<open>ctx->spawnThread\<close>.
\<close>

definition run ::
  "build_consts \<Rightarrow> bool \<Rightarrow> string \<Rightarrow> config_file \<Rightarrow> (json \<Rightarrow> startup \<Rightarrow> exn + 'r) \<Rightarrow> exn + 'r" where
  "run K tags_on configFileName f rest =
     (case startup_checks K tags_on configFileName f of
        Inl e \<Rightarrow> Inl e
      | Inr (sourceJson, s) \<Rightarrow> rest sourceJson s)"

subsection \<open>Reloading at run time: Checkpoint::trackConfigFile\<close>

text \<open>
  The calls \<open>updateConfigFile\<close> makes on the metadata, in order. \<open>Metadata.cpp\<close> is not among
  the sources at hand: the model records the calls and does not interpret them.
  \<open>AddElement owner table debug\<close> is \<open>metadata->addElement(owner, table, options)\<close>, with
  \<open>debug\<close> for the option \<open>DEBUG_TABLE\<close>; the last five are the block that puts a new
  configuration in force, under \<open>metadata->mtxTransaction\<close>.
\<close>

datatype metadata_call =
    ResetElements
  | AddElement string string bool
  | ParseKey string string
  | SetCondition string
  | ParseTag string string
  | CommitElements
  | PurgeMetadata
  | TouchTables
  | BuildMaps
  | ResetTouched

text \<open>
  Of the checkpoint thread: the modification time of the configuration last seen, the
  calls made on the metadata, the calls logged.
\<close>

record Checkpoint =
  configFileChange :: nat
  metadata_calls :: "metadata_call list"
  log :: "log_call list"

text \<open>An exception from a reader of the document, with the state at the throw.\<close>

definition thrown_in :: "'s \<Rightarrow> exn + 'a \<Rightarrow> (exn \<times> 's) + 'a" where
  "thrown_in s r = (case r of Inl e \<Rightarrow> Inl (e, s) | Inr a \<Rightarrow> Inr a)"

text \<open>
  \<open>operator<\<close> of \<open>std::string\<close>: the first position where the two differ decides, by the
  characters taken as \<open>unsigned char\<close>; a proper prefix is less.
\<close>

fun string_less :: "string \<Rightarrow> string \<Rightarrow> bool" where
  "string_less [] [] = False"
| "string_less [] (y # ys) = True"
| "string_less (x # xs) [] = False"
| "string_less (x # xs) (y # ys) =
     (if (of_char x :: nat) < of_char y then True
      else if (of_char y :: nat) < of_char x then False
      else string_less xs ys)"

text \<open>
  \<open>users.insert\<close> on the local \<open>std::set<std::string> users\<close> of \<open>updateConfigFile\<close>. The set
  is the list of its elements in the order a loop over it visits them, which is ascending;
  an element that is there already is not added again.
\<close>

fun users_insert :: "string \<Rightarrow> string list \<Rightarrow> string list" where
  "users_insert user [] = [user]"
| "users_insert user (v # vs) =
     (if user = v then v # vs
      else if string_less user v then user # v # vs
      else v # users_insert user vs)"

text \<open>One element of the array \<open>table\<close> of the filter: the body of the loop over \<open>k\<close>.\<close>

definition table_element ::
  "build_consts \<Rightarrow> string \<Rightarrow> string \<Rightarrow> nat \<Rightarrow> json \<Rightarrow> Checkpoint \<times> string list
     \<Rightarrow> (exn \<times> Checkpoint) + Checkpoint \<times> string list" where
  "table_element K configFileName separator k element cu =
     (let c = fst cu; users = snd cu in
      case thrown_in c (getJsonFieldO_at configFileName element (''table['' @ to_string k @ '']'')) of
        Inl x \<Rightarrow> Inl x
      | Inr tableElementJson \<Rightarrow>
      (case thrown_in c (getJsonFieldS configFileName (SysUser_NAME_LENGTH K) tableElementJson ''owner'') of
        Inl x \<Rightarrow> Inl x
      | Inr owner \<Rightarrow>
      (case thrown_in c (getJsonFieldS configFileName (SysObj_NAME_LENGTH K) tableElementJson ''table'') of
        Inl x \<Rightarrow> Inl x
      | Inr table \<Rightarrow>
          let c1 = c\<lparr>metadata_calls := metadata_calls c @ [AddElement owner table False]\<rparr>;
              users1 = users_insert owner users
          in
      (case (if HasMember tableElementJson ''key'' then
               (case thrown_in c1 (getJsonFieldS configFileName (JSON_KEY_LENGTH K) tableElementJson ''key'') of
                  Inl x \<Rightarrow> Inl x
                | Inr key \<Rightarrow> Inr (c1\<lparr>metadata_calls := metadata_calls c1 @ [ParseKey key separator]\<rparr>))
             else Inr c1) of
        Inl x \<Rightarrow> Inl x
      | Inr c2 \<Rightarrow>
      (case (if HasMember tableElementJson ''condition'' then
               (case thrown_in c2 (getJsonFieldS configFileName (JSON_CONDITION_LENGTH K) tableElementJson ''condition'') of
                  Inl x \<Rightarrow> Inl x
                | Inr cond \<Rightarrow> Inr (c2\<lparr>metadata_calls := metadata_calls c2 @ [SetCondition cond]\<rparr>))
             else Inr c2) of
        Inl x \<Rightarrow> Inl x
      | Inr c3 \<Rightarrow>
          if HasMember tableElementJson ''tag'' then
            (case thrown_in c3 (getJsonFieldS configFileName (JSON_TAG_LENGTH K) tableElementJson ''tag'') of
               Inl x \<Rightarrow> Inl x
             | Inr tag \<Rightarrow> Inr (c3\<lparr>metadata_calls := metadata_calls c3 @ [ParseTag tag separator]\<rparr>, users1))
          else Inr (c3, users1))))))"

fun table_elements ::
  "build_consts \<Rightarrow> string \<Rightarrow> string \<Rightarrow> nat \<Rightarrow> json list \<Rightarrow> Checkpoint \<times> string list
     \<Rightarrow> (exn \<times> Checkpoint) + Checkpoint \<times> string list" where
  "table_elements K configFileName separator k [] cu = Inr cu"
| "table_elements K configFileName separator k (element # elements) cu =
     (case table_element K configFileName separator k element cu of
        Inl x \<Rightarrow> Inl x
      | Inr cu1 \<Rightarrow> table_elements K configFileName separator (Suc k) elements cu1)"

text \<open>
  The two loops after the table loop: a user of the metadata that the file no longer names
  is missing, a user the file names that the metadata does not have is redundant. Each
  loop throws at the first such user it visits. \<open>users\<close> is the local set, in ascending
  order (\<open>users_insert\<close>). \<open>metadata_users\<close> is \<open>metadata->users\<close>, a member declared in
  \<open>Metadata.h\<close>, which is not among the sources at hand: it is given as the list of its
  elements in the order a loop over it visits them.
\<close>

definition check_users :: "string \<Rightarrow> string list \<Rightarrow> string list \<Rightarrow> exn + unit" where
  "check_users configFileName metadata_users users =
     (case filter (\<lambda>user. user \<notin> set users) metadata_users of
        user # _ \<Rightarrow> Inl (ConfigurationException 20007
                            (''file: '' @ configFileName @ '' - '' @ user @ '' is missing''))
      | [] \<Rightarrow>
          (case filter (\<lambda>user. user \<notin> set metadata_users) users of
             user # _ \<Rightarrow> Inl (ConfigurationException 20007
                                 (''file: '' @ configFileName @ '' - '' @ user @ '' is redundant''))
           | [] \<Rightarrow> Inr ()))"

text \<open>The flags of \<open>Ctx\<close> that \<open>updateConfigFile\<close> tests.\<close>

record reload_flags =
  tags_check :: bool
  SCHEMALESS :: bool
  ADAPTIVE_SCHEMA :: bool

definition debugNames :: "string list" where
  "debugNames = [''stop-log-switches'', ''stop-checkpoints'', ''stop-transactions'', ''owner'', ''table'']"

definition filterNames :: "string list" where
  "filterNames = [''table'', ''skip-xid'', ''separator'', ''dump-xid'']"

text \<open>The section \<open>debug\<close>: the owner and table to stop at, if any.\<close>

definition read_debug ::
  "build_consts \<Rightarrow> reload_flags \<Rightarrow> string \<Rightarrow> json \<Rightarrow> Checkpoint
     \<Rightarrow> (exn \<times> Checkpoint) + Checkpoint \<times> (string \<times> string) option" where
  "read_debug K F configFileName sourceJson c =
     (if HasMember sourceJson ''debug'' then
        (case thrown_in c (getJsonFieldO configFileName sourceJson ''debug'') of
           Inl x \<Rightarrow> Inl x
         | Inr debugJson \<Rightarrow>
        (case thrown_in c (if tags_check F then checkJsonFields configFileName debugJson debugNames else Inr ()) of
           Inl x \<Rightarrow> Inl x
         | Inr _ \<Rightarrow>
             if \<not> SCHEMALESS F \<and> (HasMember debugJson ''owner'' \<or> HasMember debugJson ''table'') then
               (case thrown_in c (getJsonFieldS configFileName (SysUser_NAME_LENGTH K) debugJson ''owner'') of
                  Inl x \<Rightarrow> Inl x
                | Inr debugOwner \<Rightarrow>
               (case thrown_in c (getJsonFieldS configFileName (SysObj_NAME_LENGTH K) debugJson ''table'') of
                  Inl x \<Rightarrow> Inl x
                | Inr debugTable \<Rightarrow>
                    Inr (c\<lparr>log := log c @ [Info_call 0 (''will shutdown after committed DML in ''
                                                         @ debugOwner @ ''.'' @ debugTable)]\<rparr>,
                         Some (debugOwner, debugTable))))
             else Inr (c, None)))
      else Inr (c, None))"

text \<open>The section \<open>filter\<close>.\<close>

definition read_filter ::
  "build_consts \<Rightarrow> reload_flags \<Rightarrow> string \<Rightarrow> string list \<Rightarrow> json \<Rightarrow> Checkpoint \<times> string list
     \<Rightarrow> (exn \<times> Checkpoint) + Checkpoint" where
  "read_filter K F configFileName metadata_users sourceJson cu =
     (let c = fst cu in
      if HasMember sourceJson ''filter'' then
        (case thrown_in c (getJsonFieldO configFileName sourceJson ''filter'') of
           Inl x \<Rightarrow> Inl x
         | Inr filterJson \<Rightarrow>
        (case thrown_in c (if tags_check F then checkJsonFields configFileName filterJson filterNames else Inr ()) of
           Inl x \<Rightarrow> Inl x
         | Inr _ \<Rightarrow>
             if HasMember filterJson ''table'' \<and> \<not> SCHEMALESS F then
               (case thrown_in c (getJsonFieldA configFileName filterJson ''table'') of
                  Inl x \<Rightarrow> Inl x
                | Inr tableArrayJson \<Rightarrow>
               (case (if HasMember filterJson ''separator''
                      then thrown_in c (getJsonFieldS configFileName (JSON_FORMAT_SEPARATOR_LENGTH K)
                                          filterJson ''separator'')
                      else Inr '','') of
                  Inl x \<Rightarrow> Inl x
                | Inr separator \<Rightarrow>
               (case table_elements K configFileName separator 0 tableArrayJson cu of
                  Inl x \<Rightarrow> Inl x
                | Inr cu1 \<Rightarrow>
                    (case thrown_in (fst cu1) (check_users configFileName metadata_users (snd cu1)) of
                       Inl x \<Rightarrow> Inl x
                     | Inr _ \<Rightarrow> Inr (fst cu1)))))
             else Inr c))
      else Inr c)"

text \<open>
  \<open>Checkpoint::updateConfigFile\<close>. An exception comes with the state at the throw. The
  block at the end is the only place that calls \<open>commitElements\<close> and rebuilds the maps.
\<close>

definition updateConfigFile ::
  "build_consts \<Rightarrow> reload_flags \<Rightarrow> string \<Rightarrow> string list \<Rightarrow> (nat \<times> string) + json \<Rightarrow> Checkpoint
     \<Rightarrow> (exn \<times> Checkpoint) + Checkpoint" where
  \<open>updateConfigFile K F configFileName metadata_users parse_result c =
     (case parse_result of
        Inl (offset, message) \<Rightarrow>
          Inl (ConfigurationException 20001
                 (''file: '' @ configFileName @ '' offset: '' @ to_string offset
                  @ '' - parse error: '' @ message), c)
      | Inr document \<Rightarrow>
     (case thrown_in c (if tags_check F then checkJsonFields configFileName document documentNames else Inr ()) of
        Inl x \<Rightarrow> Inl x
      | Inr _ \<Rightarrow>
     (case thrown_in c (getJsonFieldS configFileName (JSON_PARAMETER_LENGTH K) document ''version'') of
        Inl x \<Rightarrow> Inl x
      | Inr version \<Rightarrow>
          if version \<noteq> SCHEMA_VERSION K then
            Inl (ConfigurationException 30001
                   (''bad JSON, invalid 'version' value: '' @ version @ '', expected: '' @ SCHEMA_VERSION K), c)
          else
     (case thrown_in c (getJsonFieldA configFileName document ''source'') of
        Inl x \<Rightarrow> Inl x
      | Inr sourceArrayJson \<Rightarrow>
          if length sourceArrayJson \<noteq> 1 then
            Inl (ConfigurationException 30001
                   (''bad JSON, invalid 'source' value: '' @ to_string (length sourceArrayJson)
                    @ '' elements, expected: 1 element''), c)
          else
     (case thrown_in c (getJsonFieldO_at configFileName (sourceArrayJson ! 0) ''source[0]'') of
        Inl x \<Rightarrow> Inl x
      | Inr sourceJson \<Rightarrow>
     (case thrown_in c (if tags_check F then checkJsonFields configFileName sourceJson sourceNames else Inr ()) of
        Inl x \<Rightarrow> Inl x
      | Inr _ \<Rightarrow>
          let c1 = c\<lparr>metadata_calls := metadata_calls c @ [ResetElements]\<rparr> in
     (case read_debug K F configFileName sourceJson c1 of
        Inl x \<Rightarrow> Inl x
      | Inr (c2, debug) \<Rightarrow>
          let c3 = (case debug of
                      Some (debugOwner, debugTable) \<Rightarrow>
                        c2\<lparr>metadata_calls := metadata_calls c2 @ [AddElement debugOwner debugTable True]\<rparr>
                    | None \<Rightarrow> c2);
              users = (case debug of Some (debugOwner, debugTable) \<Rightarrow> users_insert debugOwner []
                       | None \<Rightarrow> []);
              c4 = (if ADAPTIVE_SCHEMA F
                    then c3\<lparr>metadata_calls := metadata_calls c3 @ [AddElement ''.*'' ''.*'' False]\<rparr>
                    else c3)
          in
     (case read_filter K F configFileName metadata_users sourceJson (c4, users) of
        Inl x \<Rightarrow> Inl x
      | Inr c5 \<Rightarrow>
          Inr (c5\<lparr>log := log c5 @ [Info_call 0 ''scanning objects which match the configuration file''],
                  metadata_calls := metadata_calls c5
                      @ [CommitElements, PurgeMetadata, TouchTables, BuildMaps, ResetTouched]\<rparr>)))))))))\<close>


text \<open>The body of the \<open>try\<close> block.\<close>

definition reload_body ::
  "build_consts \<Rightarrow> reload_flags \<Rightarrow> string \<Rightarrow> string list \<Rightarrow> config_file \<Rightarrow> Checkpoint
     \<Rightarrow> (exn \<times> Checkpoint) + Checkpoint" where
  "reload_body K F configFileName metadata_users f c =
     (if \<not> open_ok f then
        Inl (ConfigurationException 10001
               (''file: '' @ configFileName @ '' - open for read returned: '' @ strerror f), c)
      else if st_size f > CONFIG_FILE_MAX_SIZE K \<or> st_size f = 0 then
        Inl (ConfigurationException 10004
               (''file: '' @ configFileName @ '' - wrong size: '' @ to_string (st_size f)), c)
      else if bytesRead f \<noteq> st_size f then
        Inl (ConfigurationException 10005
               (''file: '' @ configFileName @ '' - '' @ to_string (bytesRead f)
                @ '' bytes read instead of '' @ to_string (st_size f)), c)
      else updateConfigFile K F configFileName metadata_users (parsed f) c)"





subsection \<open>Concrete instances\<close>

definition K_ex :: build_consts where
  "K_ex = \<lparr>SCHEMA_VERSION = ''1.6.1'', CONFIG_FILE_MAX_SIZE = 1048576, JSON_PARAMETER_LENGTH = 256,
           MEMORY_CHUNK_MIN_MB = 16, CHUNK_SIZE_MB = 1, LOG_DEBUG = 4, SysUser_NAME_LENGTH = 128,
           SysObj_NAME_LENGTH = 128, JSON_FORMAT_SEPARATOR_LENGTH = 128, JSON_KEY_LENGTH = 4096,
           JSON_CONDITION_LENGTH = 16384, JSON_TAG_LENGTH = 4096\<rparr>"

definition F_ex :: reload_flags where
  "F_ex = \<lparr>tags_check = True, SCHEMALESS = False, ADAPTIVE_SCHEMA = False\<rparr>"

text \<open>A configuration file that reads well; its document is a parameter.\<close>

definition file_ex :: "json \<Rightarrow> config_file" where
  "file_ex document = \<lparr>open_ok = True, flock_ok = True, stat_ok = True, st_size = 200, st_mtime = 7,
                        bytesRead = 200, strerror = [], parsed = Inr document\<rparr>"

text \<open>A document with the version and one source that has the given memory section.\<close>

definition document_ex :: "string \<Rightarrow> (string \<times> json) list \<Rightarrow> json" where
  "document_ex version mem =
     JObject [(''version'', JString version),
              (''source'', JArray [JObject [(''alias'', JString ''S1''), (''name'', JString ''DB1''),
                                            (''memory'', JObject mem)]])]"

definition checkpoint_ex :: Checkpoint where
  "checkpoint_ex = \<lparr>configFileChange = 3, metadata_calls = [], log = []\<rparr>"

text \<open>
  A document of the right version whose filter names the owners \<open>ZED\<close> and \<open>ALPHA\<close>, in
  this order.
\<close>

definition document_filter_ex :: json where
  "document_filter_ex =
     JObject [(''version'', JString ''1.6.1''),
              (''source'', JArray [JObject [(''alias'', JString ''S1''), (''name'', JString ''DB1''),
                 (''filter'', JObject [(''table'', JArray
                    [JObject [(''owner'', JString ''ZED''), (''table'', JString ''T1'')],
                     JObject [(''owner'', JString ''ALPHA''), (''table'', JString ''T2'')]])])]])]"


text \<open>What is left of the statements after the memory section: they hand back what was read.\<close>

definition rest_ex :: "json \<Rightarrow> startup \<Rightarrow> exn + startup" where
  "rest_ex sourceJson s = Inr s"

section \<open>Decoding a number (Builder.h)\<close>

text \<open>
  \<open>Builder::parseNumber(data, size, offset)\<close> fills the value buffer with the decimal text
  of a number in the on-wire format. In the model \<open>data\<close> is the list of the \<open>size\<close> bytes
  and the result is the text in the buffer after the call. The buffer is emptied first
  (\<open>valueBufferPurge\<close>); its capacity check (\<open>valueBufferCheck\<close>, in \<open>Builder.cpp\<close>) is not
  part of the model.
\<close>

text \<open>
  \<open>value = data[j] - 1\<close> and \<open>value = 101 - data[j]\<close>: the byte is promoted to \<open>int\<close>, the
  result converted to \<open>uint64_t\<close>, so a negative difference wraps around.
\<close>

definition positive_digit :: "u8 \<Rightarrow> u64" where
  "positive_digit b = ucast b - 1"

definition negative_digit :: "u8 \<Rightarrow> u64" where
  "negative_digit b = 101 - ucast b"

text \<open>The three ways a pair of digits is appended: both digits, the first pair of the integer part, the last pair of the fraction.\<close>

definition two_digits :: "(u64 \<Rightarrow> char) \<Rightarrow> u64 \<Rightarrow> string" where
  "two_digits map10 v = [map10 (v div 10), map10 (v mod 10)]"

definition first_digits :: "(u64 \<Rightarrow> char) \<Rightarrow> u64 \<Rightarrow> string" where
  "first_digits map10 v = (if v < 10 then [map10 v] else two_digits map10 v)"

definition last_digits :: "(u64 \<Rightarrow> char) \<Rightarrow> u64 \<Rightarrow> string" where
  "last_digits map10 v = map10 (v div 10) # (if v mod 10 \<noteq> 0 then [map10 (v mod 10)] else [])"

text \<open>
  \<open>while (digits > 0)\<close>: the remaining pairs of the integer part, \<open>00\<close> once the bytes are
  used up. \<open>decode\<close> is one of the two conversions above. The positive branch reads
  \<open>data[j]\<close> before the test \<open>j <= jMax\<close> and the negative branch after it; the value is
  used only when the test holds, and the model reads it there. The result is \<open>j\<close> and the
  buffer.
\<close>

fun total_loop ::
  "(u64 \<Rightarrow> char) \<Rightarrow> (u8 \<Rightarrow> u64) \<Rightarrow> u8 list \<Rightarrow> nat \<Rightarrow> nat \<Rightarrow> nat \<Rightarrow> string \<Rightarrow> nat \<times> string" where
  "total_loop map10 decode data jMax 0 j buf = (j, buf)"
| "total_loop map10 decode data jMax (Suc digits) j buf =
     (if j \<le> jMax then
        total_loop map10 decode data jMax digits (Suc j) (buf @ two_digits map10 (decode (data ! j)))
      else total_loop map10 decode data jMax digits j (buf @ ''00''))"

text \<open>\<open>while (zeros > 0)\<close>.\<close>

fun zeros_loop :: "nat \<Rightarrow> string \<Rightarrow> string" where
  "zeros_loop 0 buf = buf"
| "zeros_loop (Suc zeros) buf = zeros_loop zeros (buf @ ''00'')"

text \<open>
  \<open>while (j <= jMax - 1U)\<close>: the pairs of the fraction but the last. The loop is entered
  with \<open>1 \<le> j \<le> jMax\<close>, so the subtraction does not wrap.
\<close>

function fraction_loop ::
  "(u64 \<Rightarrow> char) \<Rightarrow> (u8 \<Rightarrow> u64) \<Rightarrow> u8 list \<Rightarrow> nat \<Rightarrow> nat \<Rightarrow> string \<Rightarrow> nat \<times> string" where
  "fraction_loop map10 decode data jMax j buf =
     (if j \<le> jMax - 1 then
        fraction_loop map10 decode data jMax (Suc j) (buf @ two_digits map10 (decode (data ! j)))
      else (j, buf))"
  by pat_completeness auto
termination
  by (relation "measure (\<lambda>(map10, decode, data, jMax, j, buf). Suc jMax - j)") auto

declare fraction_loop.simps [simp del]

text \<open>The block \<open>if (j <= jMax)\<close> that writes the fraction.\<close>

definition fraction_part ::
  "(u64 \<Rightarrow> char) \<Rightarrow> (u8 \<Rightarrow> u64) \<Rightarrow> u8 list \<Rightarrow> nat \<Rightarrow> nat \<Rightarrow> nat \<Rightarrow> string \<Rightarrow> string" where
  "fraction_part map10 decode data jMax zeros j buf =
     (if j \<le> jMax then
        let buf1 = zeros_loop zeros (buf @ ''.'');
            (j1, buf2) = fraction_loop map10 decode data jMax j buf1
        in buf2 @ last_digits map10 (decode (data ! j1))
      else buf)"

text \<open>
  The branch \<open>// Positive number\<close>, entered with \<open>j = 1\<close>; \<open>digits\<close> is \<open>data[0]\<close>.
\<close>

definition positive_number :: "(u64 \<Rightarrow> char) \<Rightarrow> u8 list \<Rightarrow> nat \<Rightarrow> u8 \<Rightarrow> string" where
  "positive_number map10 data jMax digits =
     (let j = 1 in
      if digits \<le> 0xC0 then
        fraction_part map10 positive_digit data jMax (unat (0xC0 - digits)) j ''0''
      else
        let digits1 = digits - 0xC0;
            buf1 = first_digits map10 (positive_digit (data ! j));
            (j2, buf2) = total_loop map10 positive_digit data jMax (unat (digits1 - 1)) (Suc j) buf1
        in fraction_part map10 positive_digit data jMax 0 j2 buf2)"

text \<open>
  The branch \<open>// Negative number\<close>: the sign, then \<open>jMax\<close> steps back over a terminator,
  then the same text with the other conversion.
\<close>

definition negative_number :: "(u64 \<Rightarrow> char) \<Rightarrow> u8 list \<Rightarrow> nat \<Rightarrow> u8 \<Rightarrow> string" where
  "negative_number map10 data jMax digits =
     (let j = 1;
          buf0 = ''-'';
          jMax1 = (if data ! jMax = 0x66 then jMax - 1 else jMax)
      in if digits \<ge> 0x3F then
           fraction_part map10 negative_digit data jMax1 (unat (digits - 0x3F)) j (buf0 @ ''0'')
         else
           let digits1 = 0x3F - digits;
               buf1 = buf0 @ first_digits map10 (negative_digit (data ! j));
               (j2, buf2) = total_loop map10 negative_digit data jMax1 (unat (digits1 - 1)) (Suc j) buf1
           in fraction_part map10 negative_digit data jMax1 0 j2 buf2)"

text \<open>
  \<open>Builder::parseNumber\<close>. The source reads \<open>data[0]\<close> unconditionally: an empty array is
  undefined behaviour, \<open>None\<close> in the model.
\<close>

definition parseNumber :: "(u64 \<Rightarrow> char) \<Rightarrow> u8 list \<Rightarrow> nat \<Rightarrow> (exn + string) option" where
  "parseNumber map10 data offset =
     (if data = [] then None
      else
        let digits = data ! 0 in
        if digits = 0x80 then Some (Inr ''0'')
        else
          let jMax = length data - 1 in
          if digits > 0x80 \<and> jMax \<ge> 1 then Some (Inr (positive_number map10 data jMax digits))
          else if digits < 0x80 \<and> jMax \<ge> 1 then Some (Inr (negative_number map10 data jMax digits))
          else Some (Inl (RedoLogException 50009
                            (''error parsing numeric value at offset: '' @ to_string offset))))"

subsection \<open>The format in the words of the specification\<close>

text \<open>
  The decimal text of a mantissa of base-100 pairs with \<open>n\<close> pairs before the decimal
  point. For \<open>n \<le> 0\<close> the integer part is \<open>0\<close> and the fraction starts with \<open>-n\<close> pairs
  \<open>00\<close>. Otherwise the first \<open>n\<close> pairs are the integer part, the first of them without a
  leading zero, padded with \<open>00\<close> when the mantissa is shorter. The last pair of the
  fraction loses a trailing zero.
\<close>

definition decimal_text :: "(u64 \<Rightarrow> char) \<Rightarrow> int \<Rightarrow> u64 list \<Rightarrow> string" where
  "decimal_text map10 n pairs =
     (let whole = take (nat n) pairs; frac = drop (nat n) pairs
      in (if n \<le> 0 then ''0''
          else (case whole of [] \<Rightarrow> [] | p # ps \<Rightarrow> first_digits map10 p @ concat (map (two_digits map10) ps))
               @ concat (replicate (nat n - length whole) ''00''))
         @ (if frac = [] then []
            else ''.'' @ concat (replicate (nat (- n)) ''00'')
                 @ concat (map (two_digits map10) (butlast frac))
                 @ last_digits map10 (last frac)))"

text \<open>A trailing byte \<open>0x66\<close> ends a negative mantissa and is not part of it.\<close>

definition strip_terminator :: "u8 list \<Rightarrow> u8 list" where
  "strip_terminator bs = (if bs \<noteq> [] \<and> last bs = 0x66 then butlast bs else bs)"

text \<open>
  The on-wire format: the first byte \<open>D\<close> alone decides between zero, a positive number
  with \<open>D - 0xC0\<close> pairs before the point and pairs \<open>byte - 1\<close>, a negative number with
  \<open>0x3F - D\<close> pairs before the point and pairs \<open>101 - byte\<close>, and a parse error.
\<close>

definition numberText :: "(u64 \<Rightarrow> char) \<Rightarrow> u8 list \<Rightarrow> nat \<Rightarrow> (exn + string) option" where
  "numberText map10 data offset =
     (case data of
        [] \<Rightarrow> None
      | D # bs \<Rightarrow>
          Some (if D = 0x80 then Inr ''0''
                else if D > 0x80 \<and> bs \<noteq> [] then
                  Inr (decimal_text map10 (uint D - 0xC0) (map positive_digit bs))
                else if D < 0x80 \<and> bs \<noteq> [] then
                  Inr (''-'' @ decimal_text map10 (0x3F - uint D) (map negative_digit (strip_terminator bs)))
                else Inl (RedoLogException 50009
                            (''error parsing numeric value at offset: '' @ to_string offset))))"

text \<open>
  The one shape on which the code leaves the format: a negative number with pairs before
  the point whose only byte after \<open>D\<close> is the terminator.
\<close>

definition terminator_only :: "u8 list \<Rightarrow> bool" where
  "terminator_only data = (length data = 2 \<and> data ! 0 < 0x3F \<and> data ! 1 = 0x66)"

section \<open>Properties of the output queue\<close>

subsection \<open>Flush policy\<close>

text \<open>
  C3 (amended). Whenever \<open>builderCommit\<close> returns, the writer has been notified, and
  \<open>unconfirmedSize\<close> reset to 0, exactly when \<open>flushBuffer\<close> is 0 or the accumulated
  \<open>unconfirmedSize\<close> (the old value plus the size of the committed message) is strictly
  greater than \<open>flushBuffer\<close>; otherwise nobody is notified and \<open>unconfirmedSize\<close> keeps the
  accumulated value.
\<close>

theorem builderCommit_flush_iff:
  "builderCommit L b = Some (Inr b') \<Longrightarrow>
     (if flushBuffer b = 0 \<or> unconfirmedSize b + (messageSize b + messagePosition b) > flushBuffer b
      then notified b' = Suc (notified b) \<and> unconfirmedSize b' = 0
      else notified b' = notified b
           \<and> unconfirmedSize b' = unconfirmedSize b + (messageSize b + messagePosition b))"
  by (auto simp: builderCommit_def Let_def flush_def builderShiftFast_def
           split: if_splits option.splits)

theorem builderCommit_flush_iff_witness:
  "builderCommit L_ex (b_pending 13) = Some (Inr (projr (the (builderCommit L_ex (b_pending 13)))))
   \<and> notified (projr (the (builderCommit L_ex (b_pending 13)))) = 1
   \<and> unconfirmedSize (projr (the (builderCommit L_ex (b_pending 13)))) = 0"
proof -
  have e: "builderCommit L_ex (b_pending 13) = Some (Inr (projr (the (builderCommit L_ex (b_pending 13)))))"
    by (simp add: builderCommit_def b_pending_def place_header_def builderShiftFast_def
          L_ex_def b_init_def Let_def flush_def BUFFER_START_UNDEFINED_def)
  have f: "flushBuffer (b_pending 13) = 100" "unconfirmedSize (b_pending 13) = 0"
    "messageSize (b_pending 13) = 0" "messagePosition (b_pending 13) = 101"
    "notified (b_pending 13) = 0"
    by (simp_all add: b_pending_def place_header_def builderShiftFast_def L_ex_def b_init_def Let_def)
  show ?thesis
    using builderCommit_flush_iff [OF e] e by (simp add: f)
qed

text \<open>
  C3 as stated fails: with \<open>flushBuffer = 100\<close>, a message of 100 bytes (the 88-byte
  header and 12 bytes of payload) makes \<open>unconfirmedSize\<close> exactly 100, and the commit
  notifies nobody.
\<close>

theorem builderCommit_flush_counterexample:
  "map_option (map_sum exn_code flush_view)
     (run_ops L_ex alloc_ex b_init [Begin 1 1 1 0, Append_str (replicate 12 65), Commit])
   = Some (Inr (100, 100, 0))"
  by (simp add: builderBegin_def place_header_def builderShiftFast_def append_str_def
        builderCommit_def flush_view_def L_ex_def b_init_def Let_def flush_def
        BUFFER_START_UNDEFINED_def SCN_COMMIT_VALUE_def)


subsection \<open>Rotation\<close>

text \<open>
  C4 (amended). For every rotation that obtains a chunk and raises nothing: if the caller
  asked for a copy, a message is in progress and
  \<open>messageSize + messagePosition < OUTPUT_BUFFER_DATA_SIZE\<close>, the node in use is closed as it
  is, the bytes of the message so far (header first) are copied to offset 0 of the fresh
  node, the header pointer moves there, and the fresh node's start is 0. Otherwise the node
  in use is closed with its size grown by \<open>messagePosition\<close>, the message size absorbs those
  bytes, the position restarts at 0 in the fresh node, and the fresh node's start is
  \<open>BUFFER_START_UNDEFINED\<close>, not 0.
\<close>

theorem builderRotate_branches:
  "builderRotate L (Inr fresh) copy b = Inr b' \<Longrightarrow>
     q_id (lastBuilderQueue b') = q_id (lastBuilderQueue b) + 1
     \<and> q_size (lastBuilderQueue b') = 0
     \<and> (if copy \<and> msg b \<noteq> None \<and> messageSize b + messagePosition b < OUTPUT_BUFFER_DATA_SIZE L
         then closed b' = closed b @ [lastBuilderQueue b]
              \<and> q_start (lastBuilderQueue b') = 0
              \<and> map_option m_at (msg b') = Some (q_id (lastBuilderQueue b'), 0)
              \<and> messagePosition b' = messagePosition b \<and> messageSize b' = messageSize b
              \<and> (\<forall>m i. msg b = Some m \<and> fst (m_at m) = q_id (lastBuilderQueue b)
                         \<and> i < messagePosition b
                    \<longrightarrow> q_data (lastBuilderQueue b') i
                        = q_data (lastBuilderQueue b) (snd (m_at m) + i))
         else closed b' = closed b @ [(lastBuilderQueue b)\<lparr>q_size := q_size (lastBuilderQueue b)
                                                                + messagePosition b\<rparr>]
              \<and> q_start (lastBuilderQueue b') = BUFFER_START_UNDEFINED
              \<and> BUFFER_START_UNDEFINED \<noteq> 0
              \<and> msg b' = msg b
              \<and> messagePosition b' = 0
              \<and> messageSize b' = messageSize b + messagePosition b)"
  by (auto simp: builderRotate_def Let_def read_at_def BUFFER_START_UNDEFINED_def
           split: if_splits)

theorem builderRotate_branches_witness:
  "builderRotate L_ex (Inr zero_chunk) True (b_pending 12)
     = Inr (projr (builderRotate L_ex (Inr zero_chunk) True (b_pending 12)))
   \<and> last_view (projr (builderRotate L_ex (Inr zero_chunk) True (b_pending 12))) = (1, 0, 0)
   \<and> map_option m_at (msg (projr (builderRotate L_ex (Inr zero_chunk) True (b_pending 12)))) = Some (1, 0)"
proof -
  have e: "builderRotate L_ex (Inr zero_chunk) True (b_pending 12)
             = Inr (projr (builderRotate L_ex (Inr zero_chunk) True (b_pending 12)))"
    by (simp add: builderRotate_def b_pending_def place_header_def builderShiftFast_def
          L_ex_def b_init_def Let_def)
  have f: "msg (b_pending 12) \<noteq> None" "messageSize (b_pending 12) = 0"
    "messagePosition (b_pending 12) = 100" "q_id (lastBuilderQueue (b_pending 12)) = 0"
    "OUTPUT_BUFFER_DATA_SIZE L_ex = 1048536"
    by (simp_all add: b_pending_def place_header_def builderShiftFast_def L_ex_def b_init_def Let_def)
  show ?thesis
    using builderRotate_branches [OF e] e by (auto simp add: f last_view_def)
qed

text \<open>
  C4 as stated fails in its second half. A message that fills the first node to the last
  byte (88 bytes of header, 1048447 of payload) and then appends one more character
  rotates without a copy, and the new node, with id 1 and size 0, has the start
  \<open>0xFFFFFFFFFFFFFFFF\<close>.
\<close>

theorem builderRotate_start_counterexample:
  "map_sum exn_code last_view (append_char L_ex (Inr zero_chunk) 65 (b_pending 1048447))
     = Inr (1, 0, 0xFFFFFFFFFFFFFFFF)"
  by (simp add: append_char_def builderShift_def builderRotate_def b_pending_def
        place_header_def builderShiftFast_def L_ex_def b_init_def Let_def last_view_def
        BUFFER_START_UNDEFINED_def)

text \<open>
  The sentinel is resolved by the next commit on that node: \<open>builderCommit\<close> replaces a
  start of \<open>BUFFER_START_UNDEFINED\<close> by the size the node has after the commit.
\<close>

lemma builderCommit_resolves_start:
  "builderCommit L b = Some (Inr b') \<Longrightarrow> q_start (lastBuilderQueue b) = BUFFER_START_UNDEFINED \<Longrightarrow>
     q_start (lastBuilderQueue b') = q_size (lastBuilderQueue b')"
  by (auto simp: builderCommit_def Let_def flush_def builderShiftFast_def
           split: if_splits option.splits)

subsection \<open>Alignment of the message headers\<close>

lemma seven_is_mask: "(7::u64) = mask 3"
  by (simp add: mask_eq_exp_minus_1)

lemma aligned_iff_dvd: "((x::u64) AND 7 = 0) = (8 dvd unat x)"
  using and_mask_dvd_nat [of 3 x] by (simp add: seven_is_mask)

lemma unat_and_seven: "unat ((x::u64) AND 7) = unat x mod 8"
proof -
  have "x AND 7 = x mod 8"
    using word_mod_2p_is_mask [of 3 x] by (simp add: seven_is_mask)
  then show ?thesis by (simp add: unat_mod)
qed

lemma eight_dvd_two_64: "(8::nat) dvd 2 ^ 64"
proof -
  have "(2::nat) ^ 64 = 8 * 2 ^ 61" by simp
  then show ?thesis by (metis dvd_triv_left)
qed

lemma unat_add_u64: "unat ((a::u64) + b) = (unat a + unat b) mod 2 ^ 64"
  using unat_word_ariths(1) [of a b] by simp

lemma aligned_add: "(a::u64) AND 7 = 0 \<Longrightarrow> b AND 7 = 0 \<Longrightarrow> (a + b) AND 7 = 0"
proof -
  assume a: "a AND 7 = 0" and b: "b AND 7 = 0"
  have "8 dvd (unat a + unat b)" using a b by (simp add: aligned_iff_dvd)
  then have "8 dvd (unat a + unat b) mod 2 ^ 64"
    using eight_dvd_two_64 by (simp only: dvd_mod_iff)
  then show ?thesis unfolding aligned_iff_dvd unat_add_u64 .
qed

lemma pad_remainder: "r < 8 \<Longrightarrow> 8 dvd ((8 * q + r :: nat) + (8 - r) mod 8)"
proof (cases "r = 0")
  case True
  then show ?thesis by simp
next
  case False
  assume r: "r < 8"
  then have "(8 - r) mod 8 = 8 - r" using False by simp
  moreover have "8 * q + r + (8 - r) = 8 * (q + 1)" using r by simp
  ultimately show ?thesis by (metis dvd_triv_left)
qed

lemma pad_nat: "8 dvd ((x::nat) + (8 - x mod 8) mod 8)"
  using pad_remainder [of "x mod 8" "x div 8"] by simp

text \<open>The padding of \<open>builderCommit\<close> brings any position to a multiple of 8.\<close>

lemma pad_aligned: "((p::u64) + ((8 - (p AND 7)) AND 7)) AND 7 = 0"
proof -
  let ?r = "unat p mod 8"
  have u1: "unat (p AND 7) = ?r" by (rule unat_and_seven)
  have le: "p AND 7 \<le> 8"
    unfolding word_le_nat_alt u1 by simp
  have u2: "unat (8 - (p AND 7)) = 8 - ?r"
    using unat_sub [OF le] u1 by simp
  have u3: "unat ((8 - (p AND 7)) AND 7) = (8 - ?r) mod 8"
    unfolding unat_and_seven u2 ..
  have "8 dvd (unat p + (8 - ?r) mod 8)"
    by (rule pad_nat)
  then have "8 dvd (unat p + (8 - ?r) mod 8) mod 2 ^ 64"
    using eight_dvd_two_64 by (simp only: dvd_mod_iff)
  then show ?thesis
    unfolding aligned_iff_dvd unat_add_u64 u3 .
qed

lemma builderRotate_aligned:
  "builderRotate L chunk copy b = Inr b' \<Longrightarrow> headers_aligned b \<Longrightarrow> headers_aligned b'"
  by (auto simp: builderRotate_def Let_def headers_aligned_def header_offsets_def
           split: if_splits sum.splits option.splits)

lemma builderShift_aligned:
  "builderShift L chunk copy b = Inr b' \<Longrightarrow> headers_aligned b \<Longrightarrow> headers_aligned b'"
proof -
  assume r: "builderShift L chunk copy b = Inr b'" and a: "headers_aligned b"
  have a1: "headers_aligned (b\<lparr>messagePosition := messagePosition b + 1\<rparr>)"
    using a by (simp add: headers_aligned_def header_offsets_def)
  show ?thesis
    using r a1 builderRotate_aligned
    by (auto simp: builderShift_def Let_def split: if_splits)
qed

lemma place_header_aligned:
  "headers_aligned b \<Longrightarrow> headers_aligned (place_header L scn sq obj fl b)"
  by (auto simp: place_header_def Let_def builderShiftFast_def headers_aligned_def
        header_offsets_def split: option.splits)

lemma builderBegin_aligned:
  "builderBegin L chunk scn sq obj fl b = Inr b' \<Longrightarrow> headers_aligned b \<Longrightarrow> headers_aligned b'"
proof -
  assume r: "builderBegin L chunk scn sq obj fl b = Inr b'" and a: "headers_aligned b"
  have a1: "headers_aligned (b\<lparr>messageSize := 0, messagePosition := 0\<rparr>)"
    using a by (simp add: headers_aligned_def header_offsets_def)
  show ?thesis
    using r a1 builderRotate_aligned place_header_aligned
    by (auto simp: builderBegin_def Let_def split: if_splits sum.splits)
qed

lemma append_char_aligned:
  "append_char L chunk c b = Inr b' \<Longrightarrow> headers_aligned b \<Longrightarrow> headers_aligned b'"
proof -
  assume r: "append_char L chunk c b = Inr b'" and a: "headers_aligned b"
  let ?b1 = "b\<lparr>lastBuilderQueue := (lastBuilderQueue b)\<lparr>q_data :=
                 (q_data (lastBuilderQueue b))(q_size (lastBuilderQueue b) + messagePosition b := c)\<rparr>\<rparr>"
  have a1: "headers_aligned ?b1"
    using a by (simp add: headers_aligned_def header_offsets_def)
  have "builderShift L chunk True ?b1 = Inr b'"
    using r by (simp add: append_char_def Let_def)
  then show ?thesis using a1 by (rule builderShift_aligned)
qed

lemma append_chars_aligned:
  "append_chars L alloc cs b = Inr b' \<Longrightarrow> headers_aligned b \<Longrightarrow> headers_aligned b'"
proof (induction cs arbitrary: b)
  case Nil
  then show ?case by simp
next
  case (Cons c cs)
  then show ?case
    by (auto split: sum.splits dest: append_char_aligned)
qed

lemma append_str_aligned:
  "append_str L alloc cs b = Inr b' \<Longrightarrow> headers_aligned b \<Longrightarrow> headers_aligned b'"
  by (auto simp: append_str_def Let_def headers_aligned_def header_offsets_def
           split: if_splits dest: append_chars_aligned [unfolded headers_aligned_def header_offsets_def])

lemma builderCommit_aligned:
  "builderCommit L b = Some (Inr b') \<Longrightarrow> headers_aligned b \<Longrightarrow> headers_aligned b'"
  by (auto simp: builderCommit_def Let_def flush_def builderShiftFast_def headers_aligned_def
        header_offsets_def aligned_add pad_aligned
           split: if_splits option.splits)

lemma builder_step_aligned:
  "builder_step L alloc x b = Some (Inr b') \<Longrightarrow> headers_aligned b \<Longrightarrow> headers_aligned b'"
  by (cases x)
     (auto dest: builderBegin_aligned append_char_aligned append_str_aligned builderCommit_aligned)

text \<open>
  C8. \<open>builderCommit\<close> advances the write position by \<open>(8 - (messagePosition & 7)) & 7\<close>
  after it has fixed the message size, so the size of the node in use stays a multiple of 8
  between messages. Hence, starting from a queue whose node in use has an aligned size (a
  fresh node has size 0), after every run of begin, append and commit operations every
  header placed by \<open>builderBegin\<close>, finished or in progress, lies at an offset that is a
  multiple of 8 in its node's data area.
\<close>

theorem headers_aligned_run:
  "run_ops L alloc b ops = Some (Inr b') \<Longrightarrow> headers_aligned b \<Longrightarrow> headers_aligned b'"
proof (induction ops arbitrary: b)
  case Nil
  then show ?case by simp
next
  case (Cons x xs)
  then show ?case
    by (auto split: option.splits sum.splits dest: builder_step_aligned)
qed

theorem headers_aligned_run_witness:
  "headers_aligned b_init
   \<and> map_option (map_sum exn_code header_offsets)
       (run_ops L_ex alloc_ex b_init
          [Begin 1 1 1 0, Append_str (replicate 13 65), Commit, Begin 2 1 1 0]) = Some (Inr [0, 104])
   \<and> headers_aligned (projr (the (run_ops L_ex alloc_ex b_init
          [Begin 1 1 1 0, Append_str (replicate 13 65), Commit, Begin 2 1 1 0])))"
proof -
  let ?r = "run_ops L_ex alloc_ex b_init
              [Begin 1 1 1 0, Append_str (replicate 13 65), Commit, Begin 2 1 1 0]"
  have i: "headers_aligned b_init"
    by (simp add: headers_aligned_def header_offsets_def b_init_def)
  have e: "?r = Some (Inr (projr (the ?r)))"
    by (simp add: builderBegin_def place_header_def builderShiftFast_def append_str_def
          builderCommit_def L_ex_def b_init_def Let_def flush_def
          BUFFER_START_UNDEFINED_def SCN_COMMIT_VALUE_def)
  have o: "map_option (map_sum exn_code header_offsets) ?r = Some (Inr [0, 104])"
    by (simp add: builderBegin_def place_header_def builderShiftFast_def append_str_def
          builderCommit_def L_ex_def b_init_def Let_def flush_def header_offsets_def
          BUFFER_START_UNDEFINED_def SCN_COMMIT_VALUE_def)
  show ?thesis
    using headers_aligned_run [OF e i] i o by simp
qed


section \<open>Properties of the escapers\<close>

lemma dec_buffer_2: "dec_buffer m v 2 = [m (v mod 10), m (v div 10 mod 10)]"
  by (simp add: numeral_2_eq_2)

lemma plain_char_escape:
  "plain_char c \<Longrightarrow> writeEscapeValue_char sc m16 c = appendEscape_char m10 c"
  by (auto simp: plain_char_def writeEscapeValue_char_def appendEscape_char_def char_value_def)

text \<open>
  C10 (amended). On every string made of printable ASCII characters other than the slash
  and of the characters tab, CR, LF, backspace and form feed, \<open>Ctx::writeEscapeValue\<close> and
  \<open>BuilderJson::appendEscape\<close> emit the same characters, whatever the digit helpers are and
  whether \<open>char\<close> is signed or not.
\<close>

theorem escapers_agree_on_plain:
  "list_all plain_char s \<Longrightarrow> writeEscapeValue sc m16 s = appendEscape m10 s"
  by (induction s) (simp_all add: writeEscapeValue_def appendEscape_def plain_char_escape)

theorem escapers_agree_on_plain_witness:
  "list_all plain_char [CHR ''a'', dquote, CHR 0x09, backslash, CHR ''z'']
   \<and> writeEscapeValue True map16_ascii [CHR ''a'', dquote, CHR 0x09, backslash, CHR ''z'']
       = [CHR ''a'', backslash, dquote, backslash, CHR ''t'', backslash, backslash, CHR ''z'']
   \<and> appendEscape map10_ascii [CHR ''a'', dquote, CHR 0x09, backslash, CHR ''z'']
       = [CHR ''a'', backslash, dquote, backslash, CHR ''t'', backslash, backslash, CHR ''z'']"
proof -
  have p: "list_all plain_char [CHR ''a'', dquote, CHR 0x09, backslash, CHR ''z'']"
    by (simp add: plain_char_def dquote_def backslash_def)
  have w: "writeEscapeValue True map16_ascii [CHR ''a'', dquote, CHR 0x09, backslash, CHR ''z'']
             = [CHR ''a'', backslash, dquote, backslash, CHR ''t'', backslash, backslash, CHR ''z'']"
    by (simp add: writeEscapeValue_def writeEscapeValue_char_def char_value_def dquote_def
          backslash_def)
  show ?thesis
    using escapers_agree_on_plain [OF p, of True map16_ascii map10_ascii] p w by simp
qed

text \<open>
  C10 as stated fails. The slash is escaped by \<open>appendEscape\<close> only. The control character
  \<open>0x1F\<close> is written with its two hexadecimal digits by \<open>writeEscapeValue\<close> and with the two
  decimal digits of 31 by \<open>appendEscape\<close>. Where \<open>char\<close> is signed, the byte \<open>0xC3\<close> is
  below 32 for \<open>writeEscapeValue\<close>, which escapes it, while \<open>appendEscape\<close> copies it.
\<close>

theorem escapers_differ_counterexample:
  "writeEscapeValue True map16_ascii [CHR ''/''] = [CHR ''/'']
   \<and> appendEscape map10_ascii [CHR ''/''] = [backslash, CHR ''/'']
   \<and> writeEscapeValue True map16_ascii [CHR 0x1F]
       = [backslash, CHR ''u'', CHR ''0'', CHR ''0'', CHR ''1'', CHR ''f'']
   \<and> appendEscape map10_ascii [CHR 0x1F]
       = [backslash, CHR ''u'', CHR ''0'', CHR ''0'', CHR ''3'', CHR ''1'']
   \<and> writeEscapeValue True map16_ascii [CHR 0xC3]
       = [backslash, CHR ''u'', CHR ''0'', CHR ''0'', CHR ''c'', CHR ''3'']
   \<and> appendEscape map10_ascii [CHR 0xC3] = [CHR 0xC3]"
  by (simp add: writeEscapeValue_def writeEscapeValue_char_def appendEscape_def
        appendEscape_char_def char_value_def map16_ascii_def map10_ascii_def
        appendDec_sized_def dec_buffer_2 dquote_def backslash_def char_of_eq_iff)

section \<open>Properties of the time zone functions\<close>

text \<open>
  C9 fails on the code. \<open>parseTimezone\<close> accepts \<open>+05:30\<close> and yields 18180, which is
  \<open>5 * 3600 + 3 * 60 + 0\<close>: the tens digit of the minutes counted as minutes and the units
  digit as seconds. \<open>timezoneToString\<close> prints 18180 as \<open>+05:03\<close>. \<open>parseTimezone\<close> accepts
  \<open>+10:00\<close> and yields \<open>-36000\<close>, the minus sign of the source binding to the first digit
  only; \<open>timezoneToString\<close> prints that as \<open>-10:00\<close>.
\<close>

theorem timezone_roundtrip_fails:
  "parseTimezone ''+05:30'' 0 = (True, 18180)
   \<and> timezoneToString map10_ascii 18180 = ''+05:03''
   \<and> parseTimezone ''+10:00'' 0 = (True, - 36000)
   \<and> timezoneToString map10_ascii (- 36000) = ''-10:00''"
  by (simp add: parseTimezone_def replace_names_def timezone_names_def is_digit_def
        digit_of_def timezoneToString_def map10_ascii_def Let_def char_of_eq_iff)

section \<open>Properties of the null columns\<close>

lemma type_hidden_iff: "type_hidden t after = (\<not> null_allowed t after)"
  by (cases t) (auto simp: type_hidden_def null_allowed_def)

text \<open>
  C7. With a known table, a column index inside it and \<open>unknown-type\<close> set to
  \<open>UNKNOWN_HIDE\<close>, \<open>columnNull\<close> leaves the message untouched when the column is guard,
  nested, hidden or unused without the flag that shows it, or when its type is not in the
  allowed set; in every other case it appends the separator (if a column precedes), the
  escaped name in quotes and \<open>:null\<close>.
\<close>

theorem columnNull_hide:
  "col < length (columns t) \<Longrightarrow> unknownType b = UNKNOWN_HIDE \<Longrightarrow>
     columnNull m10 isFlagSet (Some t) col after b =
       Some (if kept_back isFlagSet (columns t ! col) \<or> \<not> null_allowed (c_type (columns t ! col)) after
             then b
             else b\<lparr>emitted := emitted b @ (if hasPreviousColumn b then '','' else [])
                                @ [dquote] @ appendEscape m10 (c_name (columns t ! col)) @ [dquote]
                                @ '':null'',
                    hasPreviousColumn := True\<rparr>)"
  by (simp add: columnNull_def Let_def kept_back_def type_hidden_iff emit_null_def)

theorem columnNull_hide_witness:
  "map_option emitted (columnNull map10_ascii no_flags (Some table_ex) 0 False json_ex)
     = Some ([CHR '',''] @ [dquote] @ ''ID'' @ [dquote] @ '':null'')
   \<and> map_option emitted (columnNull map10_ascii no_flags (Some table_ex) 1 False json_ex) = Some []
   \<and> map_option emitted (columnNull map10_ascii no_flags (Some table_ex) 1 True json_ex)
     = Some ([CHR '',''] @ [dquote] @ ''DOC'' @ [dquote] @ '':null'')
   \<and> map_option emitted (columnNull map10_ascii no_flags (Some table_ex) 2 True json_ex) = Some []
   \<and> map_option emitted (columnNull map10_ascii no_flags (Some table_ex) 3 True json_ex) = Some []"
proof -
  have l: "0 < length (columns table_ex)" "1 < length (columns table_ex)"
    "2 < length (columns table_ex)" "3 < length (columns table_ex)"
    by (simp_all add: table_ex_def)
  have u: "unknownType json_ex = UNKNOWN_HIDE"
    by (simp add: json_ex_def)
  show ?thesis
    using columnNull_hide [OF l(1) u, of map10_ascii no_flags False]
      columnNull_hide [OF l(2) u, of map10_ascii no_flags False]
      columnNull_hide [OF l(2) u, of map10_ascii no_flags True]
      columnNull_hide [OF l(3) u, of map10_ascii no_flags True]
      columnNull_hide [OF l(4) u, of map10_ascii no_flags True]
    by (simp add: table_ex_def column_ex_def json_ex_def no_flags_def kept_back_def
          null_allowed_def appendEscape_def appendEscape_char_def dquote_def backslash_def)
qed

section \<open>Properties of the memory manager\<close>

text \<open>
  C2 (amended). When \<open>getMemoryChunk\<close> is called for the parser while the free chunks do
  not exceed the reservation and the allocated chunks have reached \<open>memoryChunksMax\<close>, it
  sets \<open>outOfMemoryParser\<close>; then, if hard shutdown has been requested, it returns the null
  pointer, and otherwise the caller is suspended on the condition variable. \<open>wontSwap\<close>, in
  any state, throws \<open>RuntimeException 10017\<close> exactly when the flag is set and the builder's
  allocation is at or below \<open>memoryChunksWriteBufferMin\<close>; otherwise it returns and the
  state is what it was.
\<close>

theorem parser_out_of_memory:
  "\<not> memoryChunksFree c > reservedChunks swap c \<Longrightarrow>
   \<not> memoryChunksAllocated c < memoryChunksMax c \<Longrightarrow>
     getMemoryChunk mb PARSER swap os_chunk [] c
       = (if hardShutdown c then Null (c\<lparr>outOfMemoryParser := True\<rparr>)
          else Suspended (c\<lparr>outOfMemoryParser := True\<rparr>))
     \<and> (if outOfMemoryParser d \<and> memoryModulesAllocated d BUILDER \<le> memoryChunksWriteBufferMin d
        then map_sum fst id (wontSwap mb d) = Inl (RuntimeException 10017 ''out of memory'')
        else wontSwap mb d = Inr d)"
  by (auto simp: getMemoryChunk_pass_def wontSwap_def Let_def not_less)

theorem parser_out_of_memory_witness:
  "outcome_view (getMemoryChunk 1 PARSER False None [] ctx_full) = (''suspended'', True)
   \<and> map_sum fst id (wontSwap 1 (ctx_full\<lparr>outOfMemoryParser := True\<rparr>))
       = Inl (RuntimeException 10017 ''out of memory'')
   \<and> wontSwap 1 ctx_full = Inr ctx_full"
proof -
  have a: "\<not> memoryChunksFree ctx_full > reservedChunks False ctx_full"
    "\<not> memoryChunksAllocated ctx_full < memoryChunksMax ctx_full"
    by (simp_all add: ctx_full_def reservedChunks_def)
  show ?thesis
    using parser_out_of_memory [OF a, of 1 None "ctx_full\<lparr>outOfMemoryParser := True\<rparr>"]
      parser_out_of_memory [OF a, of 1 None ctx_full]
    by (simp add: ctx_full_def)
qed

text \<open>
  C2 as stated fails when hard shutdown has been requested: the flag is set, but the caller
  is not suspended; \<open>getMemoryChunk\<close> returns the null pointer.
\<close>

theorem parser_out_of_memory_counterexample:
  "outcome_view (getMemoryChunk 1 PARSER False None [] (ctx_full\<lparr>hardShutdown := True\<rparr>))
     = (''null'', True)"
  by (simp add: getMemoryChunk_pass_def ctx_full_def reservedChunks_def)

section \<open>Properties of the configuration\<close>

subsection \<open>The memory section\<close>

text \<open>
  C5 fails on the code. A memory section that gives only \<open>min-mb = 4096\<close> leaves
  \<open>max-mb\<close> at its default 2048; the comparison of the two sits inside the block for a
  given \<open>max-mb\<close> and is skipped, the section is accepted, and \<open>run\<close> goes on to the
  statements that initialise the memory manager and spawn the threads. Likewise
  \<open>unswap-buffer-min-mb = 2^64 - 8\<close> passes the last test, whose sum wraps around to 4.
\<close>

theorem memory_rules_not_enforced:
  "run K_ex True ''olr.json'' (file_ex (document_ex ''1.6.1'' [(''min-mb'', JUInt 4096)])) rest_ex
     = Inr (startup_initial\<lparr>source_alias := ''S1'',
                             startup_log := [Info_call 0 ''adding source: S1''],
                             memory := memory_defaults\<lparr>memoryMinMb := 4096\<rparr>\<rparr>)
   \<and> memoryMaxMb (memory_defaults\<lparr>memoryMinMb := 4096\<rparr>) = 2048
   \<and> \<not> memory_rules (memory_defaults\<lparr>memoryMinMb := 4096\<rparr>)
   \<and> memory_section ''olr.json'' 1 16 256 True
         (JObject [(''memory'', JObject [(''unswap-buffer-min-mb'', JUInt 18446744073709551608)])])
       = Inr (memory_defaults\<lparr>memoryUnswapBufferMinMb := 18446744073709551608\<rparr>)
   \<and> \<not> memory_rules (memory_defaults\<lparr>memoryUnswapBufferMinMb := 18446744073709551608\<rparr>)"
  by (simp add: run_def startup_checks_def read_config_def file_ex_def document_ex_def K_ex_def
        checkJsonFields_def members_def documentNames_def sourceNames_def memoryNames_def
        check_version_def getJsonFieldS_def getJsonFieldU64_def getJsonFieldA_def
        getJsonFieldO_def getJsonFieldO_at_def HasMember_def member_def
        read_dump_def read_log_level_def read_trace_def the_source_def memory_section_def
        mem_min_def mem_max_def mem_unswap_def mem_swap_def mem_read_min_def mem_read_max_def
        mem_write_min_def mem_write_max_def mem_swap_path_def mem_sum_check_def
        round_chunk_def memory_defaults_def startup_initial_def rest_ex_def memory_rules_def)

text \<open>
  What the section does enforce: a given \<open>max-mb\<close> below \<open>min-mb\<close> is refused, and when
  \<open>max-mb\<close> is not given nothing is compared.
\<close>

lemma mem_max_given:
  "HasMember memoryJson ''max-mb'' \<Longrightarrow> mem_max fileName chunk_mb memoryJson m = Inr m' \<Longrightarrow>
     memoryMinMb m' = memoryMinMb m \<and> memoryMinMb m' \<le> memoryMaxMb m'"
  by (auto simp: mem_max_def Let_def not_less split: sum.splits if_splits)

lemma mem_max_not_given:
  "\<not> HasMember memoryJson ''max-mb'' \<Longrightarrow> mem_max fileName chunk_mb memoryJson m = Inr m"
  by (simp add: mem_max_def)

subsection \<open>Errors at reload and at start-up\<close>

















text \<open>
  The local set of users holds what was inserted, in ascending order whatever the order of
  the insertions.
\<close>

lemma users_insert_set: "set (users_insert user users) = insert user (set users)"
  by (induction users) auto

lemma users_insert_example: "users_insert ''ALPHA'' (users_insert ''ZED'' []) = [''ALPHA'', ''ZED'']"
  by simp











lemma w_filter:
  "reload_body K_ex F_ex ''olr.json'' [] (file_ex document_filter_ex)
     (checkpoint_ex\<lparr>log := log checkpoint_ex @ [Info_call 0 ''config file changed, reloading'']\<rparr>)
   = Inl (ConfigurationException 20007 ''file: olr.json - ALPHA is redundant'',
          \<lparr>configFileChange = 3,
           metadata_calls = [ResetElements, AddElement ''ZED'' ''T1'' False, AddElement ''ALPHA'' ''T2'' False],
           log = [Info_call 0 ''config file changed, reloading'']\<rparr>)"
  by (simp add: reload_body_def updateConfigFile_def file_ex_def document_filter_ex_def K_ex_def F_ex_def
        checkJsonFields_def members_def documentNames_def sourceNames_def filterNames_def
        getJsonFieldS_def getJsonFieldA_def getJsonFieldO_def getJsonFieldO_at_def HasMember_def
        member_def thrown_in_def checkpoint_ex_def read_debug_def read_filter_def table_element_def
        check_users_def Let_def)



section \<open>Properties of the number decoder\<close>

lemma zeros_loop_eq: "zeros_loop n buf = buf @ concat (replicate n ''00'')"
  by (induction n arbitrary: buf) simp_all

lemma replicate_zeros_snoc: "concat (replicate n ''00'') @ ''00'' = ''00'' @ concat (replicate n ''00'')"
  by (induction n) simp_all

lemma fraction_loop_eq:
  "1 \<le> j \<Longrightarrow> j \<le> jMax \<Longrightarrow> jMax < length data \<Longrightarrow>
     fraction_loop m dec data jMax j buf
       = (jMax, buf @ concat (map (\<lambda>b. two_digits m (dec b)) (take (jMax - j) (drop j data))))"
proof (induction "jMax - j" arbitrary: j buf)
  case 0
  then have "j = jMax" "\<not> j \<le> jMax - 1" by simp_all
  then show ?case by (simp add: fraction_loop.simps)
next
  case (Suc k)
  then have lt: "j < jMax" and k: "k = jMax - Suc j" by simp_all
  have jl: "j < length data" using lt Suc.prems by simp
  have d: "drop j data = data ! j # drop (Suc j) data"
    using jl by (simp add: Cons_nth_drop_Suc)
  have s: "jMax - j = Suc (jMax - Suc j)" using lt by simp
  have t: "take (jMax - j) (drop j data) = data ! j # take (jMax - Suc j) (drop (Suc j) data)"
    unfolding s d by simp
  have "fraction_loop m dec data jMax j buf
          = fraction_loop m dec data jMax (Suc j) (buf @ two_digits m (dec (data ! j)))"
  proof -
    have c: "j \<le> jMax - 1" using lt by simp
    show ?thesis by (subst fraction_loop.simps) (simp only: c if_True)
  qed
  also have "\<dots> = (jMax, (buf @ two_digits m (dec (data ! j)))
                      @ concat (map (\<lambda>b. two_digits m (dec b)) (take (jMax - Suc j) (drop (Suc j) data))))"
    using Suc.hyps(1) [of "Suc j"] k lt Suc.prems by simp
  finally show ?case using t by simp
qed

lemma total_loop_eq:
  "j \<le> Suc jMax \<Longrightarrow> jMax < length data \<Longrightarrow>
     total_loop m dec data jMax d j buf
       = (min (j + d) (Suc jMax),
          buf @ concat (map (\<lambda>b. two_digits m (dec b)) (take (min d (Suc jMax - j)) (drop j data)))
              @ concat (replicate (d - (Suc jMax - j)) ''00''))"
proof (induction d arbitrary: j buf)
  case 0
  then show ?case by simp
next
  case (Suc d)
  show ?case
  proof (cases "j \<le> jMax")
    case True
    have jl: "j < length data" using True Suc.prems by simp
    have dr: "drop j data = data ! j # drop (Suc j) data"
      using jl by (simp add: Cons_nth_drop_Suc)
    have s: "Suc jMax - j = Suc (Suc jMax - Suc j)" using True by simp
    have t: "take (min (Suc d) (Suc jMax - j)) (drop j data)
               = data ! j # take (min d (Suc jMax - Suc j)) (drop (Suc j) data)"
      unfolding s dr by simp
    have r: "Suc d - (Suc jMax - j) = d - (Suc jMax - Suc j)"
      unfolding s by simp
    have "total_loop m dec data jMax (Suc d) j buf
            = total_loop m dec data jMax d (Suc j) (buf @ two_digits m (dec (data ! j)))"
      using True by simp
    also have "\<dots> = (min (Suc j + d) (Suc jMax),
                       (buf @ two_digits m (dec (data ! j)))
                       @ concat (map (\<lambda>b. two_digits m (dec b)) (take (min d (Suc jMax - Suc j)) (drop (Suc j) data)))
                       @ concat (replicate (d - (Suc jMax - Suc j)) ''00''))"
      using Suc.IH [of "Suc j"] True Suc.prems by simp
    finally show ?thesis unfolding t r by simp
  next
    case False
    then have j: "j = Suc jMax" using Suc.prems by simp
    have "total_loop m dec data jMax (Suc d) j buf = total_loop m dec data jMax d j (buf @ ''00'')"
      using False by simp
    also have "\<dots> = (Suc jMax, (buf @ ''00'') @ concat (replicate d ''00''))"
      using Suc.IH [of j "buf @ ''00''"] Suc.prems j by simp
    finally show ?thesis using j by simp
  qed
qed

text \<open>The bytes a loop reads, as the mantissa \<open>take jMax bs\<close> of the array \<open>D # bs\<close>.\<close>

lemma mantissa_butlast:
  "1 \<le> j \<Longrightarrow> j \<le> jMax \<Longrightarrow> jMax \<le> length bs \<Longrightarrow>
     butlast (drop (j - 1) (take jMax bs)) = take (jMax - j) (drop j (D # bs))"
proof -
  assume a: "1 \<le> j" "j \<le> jMax" "jMax \<le> length bs"
  then obtain k where j: "j = Suc k" by (cases j) auto
  have "butlast (drop k (take jMax bs)) = butlast (take (jMax - k) (drop k bs))"
    by (simp add: drop_take)
  also have "\<dots> = take (jMax - k - 1) (drop k bs)"
    using a j by (simp add: butlast_take)
  finally show ?thesis using j by simp
qed

lemma mantissa_last:
  "1 \<le> j \<Longrightarrow> j \<le> jMax \<Longrightarrow> jMax \<le> length bs \<Longrightarrow>
     last (drop (j - 1) (take jMax bs)) = (D # bs) ! jMax"
proof -
  assume a: "1 \<le> j" "j \<le> jMax" "jMax \<le> length bs"
  have ne: "take jMax bs \<noteq> []" using a by auto
  have "last (drop (j - 1) (take jMax bs)) = last (take jMax bs)"
    using a by (simp add: last_drop)
  also have "\<dots> = take jMax bs ! (jMax - 1)"
    using ne a by (simp add: last_conv_nth)
  also have "\<dots> = bs ! (jMax - 1)" using a by simp
  finally show ?thesis using a by (cases jMax) simp_all
qed

lemma fraction_part_eq:
  assumes "1 \<le> j" "j \<le> jMax" "jMax \<le> length bs"
  shows "fraction_part m dec (D # bs) jMax z j buf
           = buf @ ''.'' @ concat (replicate z ''00'')
             @ concat (map (two_digits m) (butlast (drop (j - 1) (map dec (take jMax bs)))))
             @ last_digits m (last (drop (j - 1) (map dec (take jMax bs))))"
proof -
  have ne: "drop (j - 1) (take jMax bs) \<noteq> []" using assms by simp
  have l: "jMax < length (D # bs)" using assms by simp
  have b: "map (two_digits m) (butlast (drop (j - 1) (map dec (take jMax bs))))
             = map (\<lambda>b. two_digits m (dec b)) (take (jMax - j) (drop j (D # bs)))"
    using mantissa_butlast [OF assms, of D]
    by (simp add: drop_map map_butlast [symmetric] del: drop_Suc_Cons)
  have la: "last (drop (j - 1) (map dec (take jMax bs))) = dec ((D # bs) ! jMax)"
    using mantissa_last [OF assms, of D] ne
    by (simp add: drop_map last_map del: nth_Cons_Suc)
  show ?thesis
    unfolding b la
    using assms(2) fraction_loop_eq [OF assms(1) assms(2) l, of m dec]
    by (simp add: fraction_part_def zeros_loop_eq Let_def)
qed

lemma fraction_part_none: "jMax < j \<Longrightarrow> fraction_part m dec data jMax z j buf = buf"
  by (simp add: fraction_part_def)

text \<open>A number without integer pairs: \<open>0.\<close>, the zero pairs, the mantissa.\<close>

lemma fraction_only_text:
  assumes "1 \<le> jMax" "jMax \<le> length bs" "n \<le> 0" "z = nat (- n)"
  shows "fraction_part m dec (D # bs) jMax z 1 (buf @ ''0'')
           = buf @ decimal_text m n (map dec (take jMax bs))"
proof -
  have ne: "take jMax bs \<noteq> []" using assms by auto
  show ?thesis
    using fraction_part_eq [of 1 jMax bs m dec D z "buf @ ''0''"] assms ne
    by (simp add: decimal_text_def Let_def)
qed

text \<open>A number with \<open>n \<ge> 1\<close> integer pairs.\<close>

lemma integer_pairs_text:
  assumes "1 \<le> jMax" "jMax \<le> length bs" "1 \<le> n"
  shows "(case total_loop m dec (D # bs) jMax (n - 1) 2 (buf @ first_digits m (dec ((D # bs) ! 1))) of
            (j2, buf2) \<Rightarrow> fraction_part m dec (D # bs) jMax 0 j2 buf2)
           = buf @ decimal_text m (int n) (map dec (take jMax bs))"
proof -
  let ?xs = "map dec (take jMax bs)"
  obtain b bs' where bs: "bs = b # bs'" using assms by (cases bs) auto
  have l: "jMax < length (D # bs)" using assms by simp
  have len: "length ?xs = jMax" using assms by simp
  have whole: "take n ?xs = dec b # map dec (take (min (n - 1) (jMax - 1)) bs')"
    using assms bs by (cases n; cases jMax) (simp_all add: take_map min_def)
  have tl: "total_loop m dec (D # bs) jMax (n - 1) 2 (buf @ first_digits m (dec b))
              = (min (Suc n) (Suc jMax),
                 (buf @ first_digits m (dec b))
                 @ concat (map (\<lambda>b. two_digits m (dec b)) (take (min (n - 1) (jMax - 1)) bs'))
                 @ concat (replicate (n - jMax) ''00''))"
  proof -
    have e1: "2 + (n - 1) = Suc n" using assms by simp
    have e2: "Suc jMax - 2 = jMax - 1" by simp
    have e3: "n - 1 - (jMax - 1) = n - jMax" using assms by simp
    have e4: "drop 2 (D # bs) = bs'" using bs by (simp add: numeral_2_eq_2)
    have "(2::nat) \<le> Suc jMax" using assms by simp
    from total_loop_eq [OF this l, of m dec "n - 1" "buf @ first_digits m (dec b)"]
    show ?thesis unfolding e1 e2 e3 e4 .
  qed
  have ip: "(case take n ?xs of [] \<Rightarrow> [] | p # ps \<Rightarrow> first_digits m p @ concat (map (two_digits m) ps))
              @ concat (replicate (n - length (take n ?xs)) ''00'')
            = first_digits m (dec b)
              @ concat (map (\<lambda>b. two_digits m (dec b)) (take (min (n - 1) (jMax - 1)) bs'))
              @ concat (replicate (n - jMax) ''00'')"
  proof -
    have lw: "n - length (take n ?xs) = n - jMax"
      using len by (simp add: min_def del: take_map)
    show ?thesis unfolding lw unfolding whole by (simp add: comp_def)
  qed
  show ?thesis
  proof (cases "n < jMax")
    case True
    have j2: "min (Suc n) (Suc jMax) = Suc n" using True by simp
    have fr: "drop n ?xs \<noteq> []" using True len by simp
    have f: "fraction_part m dec (D # bs) jMax 0 (Suc n) buf'
               = buf' @ ''.'' @ concat (map (two_digits m) (butlast (drop n ?xs)))
                 @ last_digits m (last (drop n ?xs))" for buf'
      using fraction_part_eq [of "Suc n" jMax bs m dec D 0 buf'] True assms by simp
    show ?thesis
      using bs tl j2 f fr ip assms
      by (simp add: decimal_text_def Let_def)
  next
    case False
    have j2: "min (Suc n) (Suc jMax) = Suc jMax" using False by simp
    have fr: "drop n ?xs = []" using False len by simp
    show ?thesis
      using bs tl j2 fr ip assms
      by (simp add: decimal_text_def Let_def fraction_part_none)
  qed
qed

lemma u8_le_nat: "((a::u8) \<le> b) = (unat a \<le> unat b)"
  by (rule word_le_nat_alt)

lemma u8_less_nat: "((a::u8) < b) = (unat a < unat b)"
  by (rule word_less_nat_alt)

lemma uint_unat_u8: "uint (D::u8) = int (unat D)"
  by simp

lemma positive_number_text:
  assumes "bs \<noteq> []"
  shows "positive_number m (D # bs) (length bs) D
           = decimal_text m (uint D - 0xC0) (map positive_digit bs)"
proof -
  have l: "1 \<le> length bs" "length bs \<le> length bs" using assms by (simp_all add: Suc_le_eq)
  have e: "int (unat D) = uint D" by simp
  show ?thesis
  proof (cases "D \<le> 0xC0")
    case True
    have ud: "unat D \<le> 192" using True by (simp add: u8_le_nat)
    have n: "uint D - 0xC0 \<le> 0" using ud e by linarith
    have s: "unat (0xC0 - D) = 192 - unat D" using unat_sub [OF True] by simp
    have z: "unat (0xC0 - D) = nat (- (uint D - 0xC0))"
      unfolding s using ud e by linarith
    have "fraction_part m positive_digit (D # bs) (length bs) (unat (0xC0 - D)) 1 ([] @ ''0'')
            = [] @ decimal_text m (uint D - 0xC0) (map positive_digit (take (length bs) bs))"
      by (rule fraction_only_text [OF l n z])
    then show ?thesis
      using True by (simp add: positive_number_def Let_def)
  next
    case False
    then have gt: "0xC0 < D" by simp
    define n where "n = unat D - 0xC0"
    have n1: "1 \<le> n" using gt by (simp add: n_def u8_less_nat)
    have ud: "192 < unat D" using gt by (simp add: u8_less_nat)
    have ni: "int n = uint D - 0xC0" unfolding n_def using ud e by linarith
    have le1: "0xC0 \<le> D" using gt by simp
    have u1: "unat (D - 0xC0) = n" using unat_sub [OF le1] by (simp add: n_def)
    have le2: "1 \<le> D - 0xC0" using u1 n1 by (simp add: u8_le_nat)
    have u2: "unat (D - 0xC0 - 1) = n - 1" using unat_sub [OF le2] u1 by simp
    have "(case total_loop m positive_digit (D # bs) (length bs) (n - 1) 2
                  ([] @ first_digits m (positive_digit ((D # bs) ! 1))) of
             (j2, buf2) \<Rightarrow> fraction_part m positive_digit (D # bs) (length bs) 0 j2 buf2)
            = [] @ decimal_text m (int n) (map positive_digit (take (length bs) bs))"
      by (rule integer_pairs_text [OF l n1])
    then show ?thesis
      using False u2 ni by (simp add: positive_number_def Let_def numeral_2_eq_2)
  qed
qed

text \<open>The negative branch when bytes remain after the terminator is taken off.\<close>

lemma negative_number_text:
  assumes "bs \<noteq> []" "D < 0x80" "strip_terminator bs \<noteq> []"
  shows "negative_number m (D # bs) (length bs) D
           = ''-'' @ decimal_text m (0x3F - uint D) (map negative_digit (strip_terminator bs))"
proof -
  define jMax1 where "jMax1 = (if (D # bs) ! length bs = 0x66 then length bs - 1 else length bs)"
  have la: "(D # bs) ! length bs = last bs"
    using assms(1) by (cases "length bs") (simp_all add: last_conv_nth)
  have st: "strip_terminator bs = take jMax1 bs"
    using assms(1) by (simp add: strip_terminator_def jMax1_def la butlast_conv_take)
  have l: "1 \<le> jMax1" "jMax1 \<le> length bs"
    using assms(3) st by (auto simp: jMax1_def Suc_le_eq)
  have e: "int (unat D) = uint D" by simp
  show ?thesis
  proof (cases "0x3F \<le> D")
    case True
    have ud: "63 \<le> unat D" using True by (simp add: u8_le_nat)
    have n: "0x3F - uint D \<le> 0" using ud e by linarith
    have s: "unat (D - 0x3F) = unat D - 63" using unat_sub [OF True] by simp
    have z: "unat (D - 0x3F) = nat (- (0x3F - uint D))"
      unfolding s using ud e by linarith
    have "fraction_part m negative_digit (D # bs) jMax1 (unat (D - 0x3F)) 1 (''-'' @ ''0'')
            = ''-'' @ decimal_text m (0x3F - uint D) (map negative_digit (take jMax1 bs))"
      by (rule fraction_only_text [OF l n z])
    then show ?thesis
      using True st by (simp add: negative_number_def Let_def jMax1_def)
  next
    case False
    then have lt: "D < 0x3F" by simp
    define n where "n = 0x3F - unat D"
    have ud: "unat D < 63" using lt by (simp add: u8_less_nat)
    have n1: "1 \<le> n" using ud by (simp add: n_def)
    have ni: "int n = 0x3F - uint D" unfolding n_def using ud e by linarith
    have le1: "D \<le> 0x3F" using lt by simp
    have u1: "unat (0x3F - D) = n" using unat_sub [OF le1] by (simp add: n_def)
    have le2: "1 \<le> 0x3F - D" using u1 n1 by (simp add: u8_le_nat)
    have u2: "unat (0x3F - D - 1) = n - 1" using unat_sub [OF le2] u1 by simp
    have "(case total_loop m negative_digit (D # bs) jMax1 (n - 1) 2
                  (''-'' @ first_digits m (negative_digit ((D # bs) ! 1))) of
             (j2, buf2) \<Rightarrow> fraction_part m negative_digit (D # bs) jMax1 0 j2 buf2)
            = ''-'' @ decimal_text m (int n) (map negative_digit (take jMax1 bs))"
      by (rule integer_pairs_text [OF l n1])
    then show ?thesis
      using False u2 ni st by (simp add: negative_number_def Let_def numeral_2_eq_2 jMax1_def)
  qed
qed

text \<open>The negative branch when the terminator is the only byte and no pair stands before the point: \<open>-0\<close>.\<close>

lemma negative_number_bare:
  assumes "0x3F \<le> D"
  shows "negative_number m [D, 0x66] 1 D = ''-'' @ decimal_text m (0x3F - uint D) []"
proof -
  have e: "int (unat D) = uint D" by simp
  have ud: "63 \<le> unat D" using assms by (simp add: u8_le_nat)
  have n: "0x3F - uint D \<le> 0" using ud e by linarith
  show ?thesis
    using assms n by (simp add: negative_number_def Let_def fraction_part_def decimal_text_def)
qed

text \<open>
  Apart from the shape \<open>terminator_only\<close>, \<open>parseNumber\<close> decodes the on-wire format: zero
  for \<open>0x80\<close>, the positive and the negative texts of the specification, the parse error
  for a single byte other than \<open>0x80\<close>.
\<close>

lemma parseNumber_follows_format:
  assumes "data \<noteq> []" "\<not> terminator_only data"
  shows "parseNumber m data offset = numberText m data offset"
proof -
  obtain D bs where d: "data = D # bs" using assms(1) by (cases data) auto
  show ?thesis
  proof (cases "bs = []")
    case True
    then show ?thesis using d by (simp add: parseNumber_def numberText_def)
  next
    case False
    then have l: "1 \<le> length bs" by (simp add: Suc_le_eq)
    show ?thesis
    proof (cases "D < 0x80")
      case neg: True
      then have ng: "\<not> 0x80 < D" "D \<noteq> 0x80" by auto
      show ?thesis
      proof (cases "strip_terminator bs = []")
        case True
        then have b: "bs = [0x66]"
          using False by (cases bs rule: rev_cases) (auto simp: strip_terminator_def split: if_splits)
        have "\<not> D < 0x3F" using assms(2) d b by (simp add: terminator_only_def)
        then have "0x3F \<le> D" by simp
        from negative_number_bare [OF this, of m]
        show ?thesis using d b neg ng by (simp add: parseNumber_def numberText_def strip_terminator_def)
      next
        case st: False
        from negative_number_text [OF False neg st, of m]
        show ?thesis using d False neg ng l by (simp add: parseNumber_def numberText_def Let_def)
      qed
    next
      case nonneg: False
      from positive_number_text [OF False, of m D]
      show ?thesis using d False nonneg l by (auto simp: parseNumber_def numberText_def Let_def)
    qed
  qed
qed

text \<open>
  C1 fails on the code for the shape \<open>terminator_only\<close>. For the two bytes \<open>0x3E 0x66\<close>
  the terminator is counted out of the bytes (\<open>jMax\<close> becomes 0), but the first pair is read
  without looking at \<open>jMax\<close>: \<open>101 - 0x66\<close> wraps around to \<open>2^64 - 1\<close>, and the text is the
  sign followed by the characters for 1844674407370955161 and 5. With the terminator
  stripped the format has one integer pair and an empty mantissa.
\<close>

theorem parseNumber_reads_terminator:
  "parseNumber map10_ascii [0x3E, 0x66] 0 = Some (Inr [CHR ''-'', CHR 0xC9, CHR ''5''])
   \<and> numberText map10_ascii [0x3E, 0x66] 0 = Some (Inr ''-00'')
   \<and> negative_digit 0x66 = 0xFFFFFFFFFFFFFFFF"
  by (simp add: parseNumber_def negative_number_def Let_def negative_digit_def first_digits_def
        two_digits_def fraction_part_def map10_ascii_def char_of_eq_iff numberText_def
        decimal_text_def strip_terminator_def)

text \<open>The same for every digit helper: the two characters come from the terminator byte.\<close>

lemma parseNumber_terminator_only:
  "D < 0x3F \<Longrightarrow>
     parseNumber m [D, 0x66] offset
       = Some (Inr (''-'' @ [m 1844674407370955161, m 5] @ concat (replicate (unat (0x3F - D - 1)) ''00'')))"
proof -
  assume lt: "D < 0x3F"
  then have c: "D \<noteq> 0x80" "\<not> 0x80 < D" "D < 0x80" "\<not> 0x3F \<le> D"
    by (auto simp: u8_less_nat u8_le_nat)
  have t: "total_loop m dec [D, 0x66] 0 d 2 buf = (2, buf @ concat (replicate d ''00''))" for dec d buf
    by (induction d arbitrary: buf) (simp_all add: replicate_zeros_snoc)
  show ?thesis
    using c by (simp add: parseNumber_def negative_number_def Let_def negative_digit_def
                  first_digits_def two_digits_def fraction_part_def t numeral_2_eq_2 [symmetric])
qed

text \<open>Examples of the format the code does follow.\<close>

lemma parseNumber_examples:
  "parseNumber map10_ascii [0xC1, 0x0D, 0x23] 0 = Some (Inr ''12.34'')"
  "parseNumber map10_ascii [0xC2, 0x02] 0 = Some (Inr ''100'')"
  "parseNumber map10_ascii [0xBF, 0x02] 0 = Some (Inr ''0.0001'')"
  "parseNumber map10_ascii [0x3E, 0x5A, 0x43, 0x66] 0 = Some (Inr ''-11.34'')"
  "parseNumber map10_ascii [0x3D, 0x02, 0x66] 0 = Some (Inr ''-9900'')"
  "parseNumber map10_ascii [0x81] 7
     = Some (Inl (RedoLogException 50009 ''error parsing numeric value at offset: 7''))"
  by (simp_all add: parseNumber_def positive_number_def negative_number_def Let_def
        positive_digit_def negative_digit_def first_digits_def two_digits_def last_digits_def
        fraction_part_def fraction_loop.simps map10_ascii_def char_of_eq_iff to_string.simps
        digit_char_def)

end
